theory Spec2Isabelle
  imports Main "HOL-Library.Word"
begin

unbundle bit_operations_syntax

section \<open>The MAVLink framing layer of \<^verbatim>\<open>include/protocol.h\<close>\<close>

text \<open>
  The header is embedded function by function. C objects that a function changes through a
  pointer are passed in and returned. Fixed-width integers are words: \<^verbatim>\<open>uint8_t\<close> and
  \<^verbatim>\<open>int8_t\<close> are \<^typ>\<open>8 word\<close> (read with \<^const>\<open>unat\<close> or \<^const>\<open>sint\<close>), and so on for 16,
  32 and 64 bits. A \<^verbatim>\<open>float\<close> is carried as its 32-bit object representation, which is all
  that \<^verbatim>\<open>put_float_by_index\<close> looks at. A byte buffer is a list of bytes whose length is
  the size of the object behind the pointer; an access outside it is a \<^verbatim>\<open>fault\<close>.
\<close>

type_synonym uint8_t = "8 word"
type_synonym int8_t = "8 word"
type_synonym uint16_t = "16 word"
type_synonym int16_t = "16 word"
type_synonym uint32_t = "32 word"
type_synonym int32_t = "32 word"
type_synonym uint64_t = "64 word"
type_synonym int64_t = "64 word"
type_synonym float = "32 word"

datatype fault = Write_Out_Of_Bounds | Read_Out_Of_Bounds

subsection \<open>Field packing (lines 302--454)\<close>

definition put_uint8_t_by_index ::
  "uint8_t \<Rightarrow> uint8_t \<Rightarrow> uint8_t list \<Rightarrow> fault + (uint8_t list \<times> uint8_t)" where
  "put_uint8_t_by_index b bindex buffer =
     (if unat bindex < length buffer
      then Inr (buffer[unat bindex := b], 1)
      else Inl Write_Out_Of_Bounds)"

text \<open>The signed variant takes a signed index: a negative one points before the buffer.\<close>

definition put_int8_by_index ::
  "int8_t \<Rightarrow> int8_t \<Rightarrow> uint8_t list \<Rightarrow> fault + (uint8_t list \<times> uint8_t)" where
  "put_int8_by_index b bindex buffer =
     (if 0 \<le> sint bindex \<and> nat (sint bindex) < length buffer
      then Inr (buffer[nat (sint bindex) := b], 1)
      else Inl Write_Out_Of_Bounds)"

text \<open>
  In \<^verbatim>\<open>buffer[bindex+1]\<close> the index is computed in \<^verbatim>\<open>int\<close>, so it does not wrap at 256.
\<close>

definition put_uint16_t_by_index ::
  "uint16_t \<Rightarrow> uint8_t \<Rightarrow> uint8_t list \<Rightarrow> fault + (uint8_t list \<times> uint8_t)" where
  "put_uint16_t_by_index b bindex buffer =
     (if unat bindex + 1 < length buffer
      then Inr (buffer[unat bindex := ucast (drop_bit 8 b AND 0xff),
                       unat bindex + 1 := ucast (b AND 0xff)], 2)
      else Inl Write_Out_Of_Bounds)"

definition put_int16_t_by_index ::
  "int16_t \<Rightarrow> uint8_t \<Rightarrow> uint8_t list \<Rightarrow> fault + (uint8_t list \<times> uint8_t)" where
  "put_int16_t_by_index b bindex buffer = put_uint16_t_by_index b bindex buffer"

definition put_uint32_t_by_index ::
  "uint32_t \<Rightarrow> uint8_t \<Rightarrow> uint8_t list \<Rightarrow> fault + (uint8_t list \<times> uint8_t)" where
  "put_uint32_t_by_index b bindex buffer =
     (if unat bindex + 3 < length buffer
      then Inr (buffer[unat bindex := ucast (drop_bit 24 b AND 0xff),
                       unat bindex + 1 := ucast (drop_bit 16 b AND 0xff),
                       unat bindex + 2 := ucast (drop_bit 8 b AND 0xff),
                       unat bindex + 3 := ucast (b AND 0xff)], 4)
      else Inl Write_Out_Of_Bounds)"

text \<open>On the signed value \<^verbatim>\<open>>>\<close> is the arithmetic shift.\<close>

definition put_int32_t_by_index ::
  "int32_t \<Rightarrow> uint8_t \<Rightarrow> uint8_t list \<Rightarrow> fault + (uint8_t list \<times> uint8_t)" where
  "put_int32_t_by_index b bindex buffer =
     (if unat bindex + 3 < length buffer
      then Inr (buffer[unat bindex := ucast (signed_drop_bit 24 b AND 0xff),
                       unat bindex + 1 := ucast (signed_drop_bit 16 b AND 0xff),
                       unat bindex + 2 := ucast (signed_drop_bit 8 b AND 0xff),
                       unat bindex + 3 := ucast (b AND 0xff)], 4)
      else Inl Write_Out_Of_Bounds)"

definition put_uint64_t_by_index ::
  "uint64_t \<Rightarrow> uint8_t \<Rightarrow> uint8_t list \<Rightarrow> fault + (uint8_t list \<times> uint8_t)" where
  "put_uint64_t_by_index b bindex buffer =
     (if unat bindex + 7 < length buffer
      then Inr (buffer[unat bindex := ucast (drop_bit 56 b AND 0xff),
                       unat bindex + 1 := ucast (drop_bit 48 b AND 0xff),
                       unat bindex + 2 := ucast (drop_bit 40 b AND 0xff),
                       unat bindex + 3 := ucast (drop_bit 32 b AND 0xff),
                       unat bindex + 4 := ucast (drop_bit 24 b AND 0xff),
                       unat bindex + 5 := ucast (drop_bit 16 b AND 0xff),
                       unat bindex + 6 := ucast (drop_bit 8 b AND 0xff),
                       unat bindex + 7 := ucast (b AND 0xff)], 8)
      else Inl Write_Out_Of_Bounds)"

definition put_int64_t_by_index ::
  "int64_t \<Rightarrow> uint8_t \<Rightarrow> uint8_t list \<Rightarrow> fault + (uint8_t list \<times> uint8_t)" where
  "put_int64_t_by_index b bindex buffer = put_uint64_t_by_index b bindex buffer"

text \<open>
  \<^verbatim>\<open>g.f = b; ... g.i\<close> reads the float's four bytes back as an \<^verbatim>\<open>int32_t\<close>: on the
  representation this is the identity.
\<close>

definition put_float_by_index ::
  "float \<Rightarrow> uint8_t \<Rightarrow> uint8_t list \<Rightarrow> fault + (uint8_t list \<times> uint8_t)" where
  "put_float_by_index b bindex buffer = put_int32_t_by_index b bindex buffer"

definition put_array_by_index ::
  "int8_t list \<Rightarrow> uint8_t \<Rightarrow> uint8_t \<Rightarrow> uint8_t list \<Rightarrow> fault + (uint8_t list \<times> uint8_t)" where
  "put_array_by_index b length_arg bindex buffer =
     (if length b < unat length_arg then Inl Read_Out_Of_Bounds
      else if length buffer < unat bindex + unat length_arg then Inl Write_Out_Of_Bounds
      else Inr (take (unat bindex) buffer @ take (unat length_arg) b @
                drop (unat bindex + unat length_arg) buffer, length_arg))"

text \<open>
  The layout the specification asks for, in its own words: the value in big-endian byte
  order, most significant byte first, \<open>n\<close> bytes long.
\<close>

definition big_endian :: "nat \<Rightarrow> 'a::len word \<Rightarrow> uint8_t list" where
  "big_endian n v = map (\<lambda>k. ucast (drop_bit (8 * (n - 1 - k)) v)) [0..<n]"

subsection \<open>Declarations of \<^verbatim>\<open>mavlink_types.h\<close> and \<^verbatim>\<open>checksum.h\<close>\<close>

text \<open>
  \<^verbatim>\<open>protocol.h\<close> includes both headers, whose text is not part of the code embedded
  here. What the specification fixes about them is defined below. The delimiter byte, the
  checksum seed and the checksum recurrence, which it leaves open, are parameters of every
  function that uses them: \<open>crcInit\<close> is the value \<^verbatim>\<open>crcInit\<close> stores, \<open>crcAccumulate c s\<close>
  the value \<^verbatim>\<open>crcAccumulate(c, &s)\<close> leaves in \<^verbatim>\<open>s\<close>.
\<close>

record mavlink_env =
  MAVLINK_STX :: uint8_t
  crcInit :: uint16_t
  crcAccumulate :: "uint8_t \<Rightarrow> uint16_t \<Rightarrow> uint16_t"

text \<open>
  Modelled from the spec: \<^verbatim>\<open>MAVLINK_MAX_PAYLOAD_LEN\<close> of \<^verbatim>\<open>mavlink_types.h\<close>,
  "max payload length 255 bytes (length field is one byte)".
\<close>

definition MAVLINK_MAX_PAYLOAD_LEN :: nat where
  "MAVLINK_MAX_PAYLOAD_LEN = 255"

text \<open>
  Modelled from the spec: \<^verbatim>\<open>MAVLINK_CORE_HEADER_LEN\<close> of \<^verbatim>\<open>mavlink_types.h\<close>, the
  "5 header bytes" length, sequence, system id, component id and message kind.
\<close>

definition MAVLINK_CORE_HEADER_LEN :: nat where
  "MAVLINK_CORE_HEADER_LEN = 5"

text \<open>
  Modelled from the spec: \<^verbatim>\<open>MAVLINK_NUM_NON_PAYLOAD_BYTES\<close> of \<^verbatim>\<open>mavlink_types.h\<close>,
  "overhead = delimiter + 5 header bytes + 2 checksum bytes = 8".
\<close>

definition MAVLINK_NUM_NON_PAYLOAD_BYTES :: nat where
  "MAVLINK_NUM_NON_PAYLOAD_BYTES = 8"

text \<open>
  Modelled from the spec: \<^verbatim>\<open>MAVLINK_NUM_NON_STX_PAYLOAD_BYTES\<close> of
  \<^verbatim>\<open>mavlink_types.h\<close>, the same overhead without the delimiter.
\<close>

definition MAVLINK_NUM_NON_STX_PAYLOAD_BYTES :: nat where
  "MAVLINK_NUM_NON_STX_PAYLOAD_BYTES = 7"

text \<open>
  Modelled from the spec: the enumeration \<^verbatim>\<open>mavlink_parse_state_t\<close> of
  \<^verbatim>\<open>mavlink_types.h\<close>, "States, in processing order: UNINIT, IDLE, GOT_STX, GOT_LENGTH,
  GOT_SEQ, GOT_SYSID, GOT_COMPID, GOT_MSGID, GOT_PAYLOAD, GOT_CRC1". The field that holds
  a state is an \<^typ>\<open>int\<close>, as a C enumeration is, so that a stored value outside the
  enumerated range can be spoken of.
\<close>

definition MAVLINK_PARSE_STATE_UNINIT :: int where
  "MAVLINK_PARSE_STATE_UNINIT = 0"

definition MAVLINK_PARSE_STATE_IDLE :: int where
  "MAVLINK_PARSE_STATE_IDLE = 1"

definition MAVLINK_PARSE_STATE_GOT_STX :: int where
  "MAVLINK_PARSE_STATE_GOT_STX = 2"

definition MAVLINK_PARSE_STATE_GOT_LENGTH :: int where
  "MAVLINK_PARSE_STATE_GOT_LENGTH = 3"

definition MAVLINK_PARSE_STATE_GOT_SEQ :: int where
  "MAVLINK_PARSE_STATE_GOT_SEQ = 4"

definition MAVLINK_PARSE_STATE_GOT_SYSID :: int where
  "MAVLINK_PARSE_STATE_GOT_SYSID = 5"

definition MAVLINK_PARSE_STATE_GOT_COMPID :: int where
  "MAVLINK_PARSE_STATE_GOT_COMPID = 6"

definition MAVLINK_PARSE_STATE_GOT_MSGID :: int where
  "MAVLINK_PARSE_STATE_GOT_MSGID = 7"

definition MAVLINK_PARSE_STATE_GOT_PAYLOAD :: int where
  "MAVLINK_PARSE_STATE_GOT_PAYLOAD = 8"

definition MAVLINK_PARSE_STATE_GOT_CRC1 :: int where
  "MAVLINK_PARSE_STATE_GOT_CRC1 = 9"

text \<open>
  Modelled from the spec: \<^verbatim>\<open>mavlink_status_t\<close> of \<^verbatim>\<open>mavlink_types.h\<close>, the "Channel
  Parse Status", with the fields \<^verbatim>\<open>protocol.h\<close> reads and writes under the names it uses.
  The sequence number is an "8-bit counter" and the cursor indexes a payload of at most
  255 bytes; the flag and the two error counters are taken as \<^verbatim>\<open>uint8_t\<close> too, the two
  "cumulative counters for loss estimation" as \<^verbatim>\<open>uint16_t\<close>.
\<close>

record mavlink_status_t =
  ck_a :: uint8_t
  ck_b :: uint8_t
  msg_received :: uint8_t
  buffer_overrun :: uint8_t
  parse_error :: uint8_t
  parse_state :: int
  packet_idx :: uint8_t
  current_seq :: uint8_t
  packet_rx_success_count :: uint16_t
  packet_rx_drop_count :: uint16_t

text \<open>
  Modelled from the spec: \<^verbatim>\<open>mavlink_message_t\<close> of \<^verbatim>\<open>mavlink_types.h\<close>, the "Message",
  with the field names \<^verbatim>\<open>protocol.h\<close> uses: five header bytes, the payload as a
  "fixed-capacity byte buffer" of \<^const>\<open>MAVLINK_MAX_PAYLOAD_LEN\<close> bytes, and the checksum
  "as two bytes". \<open>mavlink_message_ok\<close> says that the payload list has the array's size.
\<close>

record mavlink_message_t =
  len :: uint8_t
  seq :: uint8_t
  sysid :: uint8_t
  compid :: uint8_t
  msgid :: uint8_t
  payload :: "uint8_t list"
  ck_a :: uint8_t
  ck_b :: uint8_t

definition mavlink_message_ok :: "mavlink_message_t \<Rightarrow> bool" where
  "mavlink_message_ok msg = (length (payload msg) = MAVLINK_MAX_PAYLOAD_LEN)"

text \<open>
  Modelled from the spec: the object representation of \<^verbatim>\<open>mavlink_message_t\<close>, which
  \<^verbatim>\<open>finalize_message\<close> and \<^verbatim>\<open>message_to_send_buffer\<close> read through a byte pointer.
  The struct declaration is in \<^verbatim>\<open>mavlink_types.h\<close>; the specification gives the order
  "length, sequence, sender_system_id, sender_component_id, message_kind_id, payload" and
  then the two checksum bytes.
\<close>

definition mavlink_message_bytes :: "mavlink_message_t \<Rightarrow> uint8_t list" where
  "mavlink_message_bytes msg =
     [len msg, seq msg, sysid msg, compid msg, msgid msg] @ payload msg @
     [mavlink_message_t.ck_a msg, mavlink_message_t.ck_b msg]"

text \<open>
  Modelled from the spec: \<^verbatim>\<open>crc_calculate\<close> of \<^verbatim>\<open>checksum.h\<close>, the checksum over the
  first \<open>n\<close> bytes of a buffer: "init() -> accumulator; accumulate(accumulator, byte) ->
  accumulator", a "pure function of the byte sequence fed to it".
\<close>

definition crc_calculate :: "mavlink_env \<Rightarrow> uint8_t list \<Rightarrow> nat \<Rightarrow> fault + uint16_t" where
  "crc_calculate env pBuffer n =
     (if length pBuffer < n then Inl Read_Out_Of_Bounds
      else Inr (fold (crcAccumulate env) (take n pBuffer) (crcInit env)))"

subsection \<open>Finalizing and serializing (lines 19--56)\<close>

text \<open>
  The function-local \<^verbatim>\<open>static uint8_t seq\<close> is passed in and returned as
  \<open>seq_static\<close>. \<^verbatim>\<open>length\<close> is a \<^verbatim>\<open>uint16_t\<close>: the store to \<^verbatim>\<open>msg->len\<close> keeps its low
  byte, while the checksum runs over \<^verbatim>\<open>length + MAVLINK_CORE_HEADER_LEN\<close> bytes of the
  message object. The result is the message, the counter and the returned length.
\<close>

definition finalize_message ::
  "mavlink_env \<Rightarrow> uint8_t \<Rightarrow> mavlink_message_t \<Rightarrow> uint8_t \<Rightarrow> uint8_t \<Rightarrow> uint16_t \<Rightarrow>
     fault + (mavlink_message_t \<times> uint8_t \<times> uint16_t)" where
  "finalize_message env seq_static msg system_id component_id length_arg =
     (let msg = msg\<lparr>len := ucast length_arg\<rparr>;
          msg = msg\<lparr>sysid := system_id\<rparr>;
          msg = msg\<lparr>compid := component_id\<rparr>;
          msg = msg\<lparr>seq := seq_static\<rparr>;
          seq_static = seq_static + 1
      in case crc_calculate env (mavlink_message_bytes msg)
                (unat length_arg + MAVLINK_CORE_HEADER_LEN) of
           Inl e \<Rightarrow> Inl e
         | Inr checksum \<Rightarrow>
             (let msg = msg\<lparr>mavlink_message_t.ck_a := ucast (checksum AND 0xFF)\<rparr>;
                  msg = msg\<lparr>mavlink_message_t.ck_b := ucast (drop_bit 8 checksum)\<rparr>
              in Inr (msg, seq_static,
                      length_arg + word_of_nat MAVLINK_NUM_NON_STX_PAYLOAD_BYTES)))"

text \<open>
  \<^verbatim>\<open>memcpy\<close> copies the first \<^verbatim>\<open>msg->len + MAVLINK_CORE_HEADER_LEN\<close> bytes of the
  message object to \<^verbatim>\<open>buffer + 1\<close>. The result is the buffer and the returned length.
\<close>

definition message_to_send_buffer ::
  "mavlink_env \<Rightarrow> uint8_t list \<Rightarrow> mavlink_message_t \<Rightarrow> fault + (uint8_t list \<times> uint16_t)" where
  "message_to_send_buffer env buffer msg =
     (let n = unat (len msg) + MAVLINK_CORE_HEADER_LEN in
      if length (mavlink_message_bytes msg) < n then Inl Read_Out_Of_Bounds
      else if length buffer < n + 3 then Inl Write_Out_Of_Bounds
      else
        (let buffer = buffer[0 := MAVLINK_STX env];
             buffer = take 1 buffer @ take n (mavlink_message_bytes msg) @ drop (1 + n) buffer;
             buffer = buffer[n + 1 := mavlink_message_t.ck_a msg];
             buffer = buffer[n + 2 := mavlink_message_t.ck_b msg]
         in Inr (buffer, ucast (len msg) + word_of_nat MAVLINK_NUM_NON_PAYLOAD_BYTES)))"

definition message_get_send_buffer_length :: "mavlink_message_t \<Rightarrow> uint16_t" where
  "message_get_send_buffer_length msg = ucast (len msg) + word_of_nat MAVLINK_NUM_NON_PAYLOAD_BYTES"

subsection \<open>The running checksum (lines 58--80)\<close>

text \<open>
  \<^verbatim>\<open>union checksum_\<close> overlays a \<^verbatim>\<open>uint16_t s\<close> with two bytes \<^verbatim>\<open>c[2]\<close>. On the
  little-endian targets of the library \<^verbatim>\<open>c[0]\<close> is the low byte of \<^verbatim>\<open>s\<close> and \<^verbatim>\<open>c[1]\<close>
  the high byte.
\<close>

definition checksum_s :: "uint8_t \<Rightarrow> uint8_t \<Rightarrow> uint16_t" where
  "checksum_s c0 c1 = word_cat c1 c0"

definition checksum_c0 :: "uint16_t \<Rightarrow> uint8_t" where
  "checksum_c0 s = ucast s"

definition checksum_c1 :: "uint16_t \<Rightarrow> uint8_t" where
  "checksum_c1 s = ucast (drop_bit 8 s)"

definition mavlink_start_checksum :: "mavlink_env \<Rightarrow> mavlink_message_t \<Rightarrow> mavlink_message_t" where
  "mavlink_start_checksum env msg =
     (let s = crcInit env in
      msg\<lparr>mavlink_message_t.ck_a := checksum_c0 s, mavlink_message_t.ck_b := checksum_c1 s\<rparr>)"

definition mavlink_update_checksum ::
  "mavlink_env \<Rightarrow> mavlink_message_t \<Rightarrow> uint8_t \<Rightarrow> mavlink_message_t" where
  "mavlink_update_checksum env msg c =
     (let s = checksum_s (mavlink_message_t.ck_a msg) (mavlink_message_t.ck_b msg);
          s = crcAccumulate env c s
      in msg\<lparr>mavlink_message_t.ck_a := checksum_c0 s, mavlink_message_t.ck_b := checksum_c1 s\<rparr>)"

subsection \<open>The channel parser (lines 90--280)\<close>

definition mavlink_parse_state_initialize :: "mavlink_status_t \<Rightarrow> mavlink_status_t" where
  "mavlink_parse_state_initialize initStatus =
     (if parse_state initStatus \<le> MAVLINK_PARSE_STATE_UNINIT \<or>
         parse_state initStatus > MAVLINK_PARSE_STATE_GOT_CRC1
      then initStatus\<lparr>mavlink_status_t.ck_a := 0,
                      mavlink_status_t.ck_b := 0,
                      msg_received := 0,
                      buffer_overrun := 0,
                      parse_error := 0,
                      parse_state := MAVLINK_PARSE_STATE_UNINIT,
                      packet_idx := 0,
                      packet_rx_drop_count := 0,
                      packet_rx_success_count := 0\<rparr>
      else initStatus)"

text \<open>
  The two function-local static arrays hold one status and one message per channel;
  \<^verbatim>\<open>chan\<close> selects the pair the call works on. A \<open>mavlink_channel\<close> is that pair.
  Static storage starts zeroed: \<open>mavlink_channel_fresh\<close> is a channel before its first
  call, made of a zeroed status and a zeroed message.
\<close>

record mavlink_channel =
  m_mavlink_status :: mavlink_status_t
  m_mavlink_message :: mavlink_message_t

definition mavlink_status_zero :: mavlink_status_t where
  "mavlink_status_zero =
     \<lparr>mavlink_status_t.ck_a = 0, mavlink_status_t.ck_b = 0, msg_received = 0,
      buffer_overrun = 0, parse_error = 0, parse_state = 0, packet_idx = 0,
      current_seq = 0, packet_rx_success_count = 0, packet_rx_drop_count = 0\<rparr>"

definition mavlink_message_zero :: mavlink_message_t where
  "mavlink_message_zero =
     \<lparr>len = 0, seq = 0, sysid = 0, compid = 0, msgid = 0,
      payload = replicate MAVLINK_MAX_PAYLOAD_LEN 0,
      mavlink_message_t.ck_a = 0, mavlink_message_t.ck_b = 0\<rparr>"

definition mavlink_channel_fresh :: mavlink_channel where
  "mavlink_channel_fresh =
     \<lparr>m_mavlink_status = mavlink_status_zero, m_mavlink_message = mavlink_message_zero\<rparr>"

text \<open>
  The \<^verbatim>\<open>switch\<close> of lines 160--258, on the status, the message under construction
  \<^verbatim>\<open>rxmsg\<close> and the caller's \<^verbatim>\<open>r_message\<close>. A state value with no \<^verbatim>\<open>case\<close> falls through.
  The store \<^verbatim>\<open>rxmsg->payload[status->packet_idx++] = c\<close> is a fault when the cursor is past
  the end of the payload array.
\<close>

definition mavlink_parse_char_switch ::
  "mavlink_env \<Rightarrow> uint8_t \<Rightarrow> mavlink_status_t \<Rightarrow> mavlink_message_t \<Rightarrow> mavlink_message_t \<Rightarrow>
     fault + (mavlink_status_t \<times> mavlink_message_t \<times> mavlink_message_t)" where
  "mavlink_parse_char_switch env c status rxmsg r_message =
     (if parse_state status = MAVLINK_PARSE_STATE_UNINIT \<or>
         parse_state status = MAVLINK_PARSE_STATE_IDLE then
        (if c = MAVLINK_STX env
         then Inr (status\<lparr>parse_state := MAVLINK_PARSE_STATE_GOT_STX\<rparr>,
                   mavlink_start_checksum env rxmsg, r_message)
         else Inr (status, rxmsg, r_message))
      else if parse_state status = MAVLINK_PARSE_STATE_GOT_STX then
        (if msg_received status \<noteq> 0
         then Inr (status\<lparr>buffer_overrun := buffer_overrun status + 1,
                          parse_error := parse_error status + 1,
                          msg_received := 0,
                          parse_state := MAVLINK_PARSE_STATE_IDLE\<rparr>, rxmsg, r_message)
         else Inr (status\<lparr>packet_idx := 0, parse_state := MAVLINK_PARSE_STATE_GOT_LENGTH\<rparr>,
                   mavlink_update_checksum env (rxmsg\<lparr>len := c\<rparr>) c, r_message))
      else if parse_state status = MAVLINK_PARSE_STATE_GOT_LENGTH then
        Inr (status\<lparr>parse_state := MAVLINK_PARSE_STATE_GOT_SEQ\<rparr>,
             mavlink_update_checksum env (rxmsg\<lparr>seq := c\<rparr>) c, r_message)
      else if parse_state status = MAVLINK_PARSE_STATE_GOT_SEQ then
        Inr (status\<lparr>parse_state := MAVLINK_PARSE_STATE_GOT_SYSID\<rparr>,
             mavlink_update_checksum env (rxmsg\<lparr>sysid := c\<rparr>) c, r_message)
      else if parse_state status = MAVLINK_PARSE_STATE_GOT_SYSID then
        Inr (status\<lparr>parse_state := MAVLINK_PARSE_STATE_GOT_COMPID\<rparr>,
             mavlink_update_checksum env (rxmsg\<lparr>compid := c\<rparr>) c, r_message)
      else if parse_state status = MAVLINK_PARSE_STATE_GOT_COMPID then
        (let rxmsg = mavlink_update_checksum env (rxmsg\<lparr>msgid := c\<rparr>) c in
         if len rxmsg = 0
         then Inr (status\<lparr>parse_state := MAVLINK_PARSE_STATE_GOT_PAYLOAD\<rparr>, rxmsg, r_message)
         else Inr (status\<lparr>parse_state := MAVLINK_PARSE_STATE_GOT_MSGID\<rparr>, rxmsg, r_message))
      else if parse_state status = MAVLINK_PARSE_STATE_GOT_MSGID then
        (if length (payload rxmsg) \<le> unat (packet_idx status) then Inl Write_Out_Of_Bounds
         else
           (let rxmsg = rxmsg\<lparr>payload := (payload rxmsg)[unat (packet_idx status) := c]\<rparr>;
                status = status\<lparr>packet_idx := packet_idx status + 1\<rparr>;
                rxmsg = mavlink_update_checksum env rxmsg c
            in if packet_idx status = len rxmsg
               then Inr (status\<lparr>parse_state := MAVLINK_PARSE_STATE_GOT_PAYLOAD\<rparr>, rxmsg, r_message)
               else Inr (status, rxmsg, r_message)))
      else if parse_state status = MAVLINK_PARSE_STATE_GOT_PAYLOAD then
        (if c \<noteq> mavlink_message_t.ck_a rxmsg
         then Inr (status\<lparr>parse_error := parse_error status + 1,
                          msg_received := 0,
                          parse_state := MAVLINK_PARSE_STATE_IDLE\<rparr>, rxmsg, r_message)
         else Inr (status\<lparr>parse_state := MAVLINK_PARSE_STATE_GOT_CRC1\<rparr>, rxmsg, r_message))
      else if parse_state status = MAVLINK_PARSE_STATE_GOT_CRC1 then
        (if c \<noteq> mavlink_message_t.ck_b rxmsg
         then Inr (status\<lparr>parse_error := parse_error status + 1,
                          msg_received := 0,
                          parse_state := MAVLINK_PARSE_STATE_IDLE\<rparr>, rxmsg, r_message)
         else Inr (status\<lparr>msg_received := 1,
                          parse_state := MAVLINK_PARSE_STATE_IDLE\<rparr>, rxmsg, rxmsg))
      else Inr (status, rxmsg, r_message))"

text \<open>
  The loop of lines 264--268, \<^verbatim>\<open>while (status->current_seq != rxmsg->seq)\<close>. Both sides
  are bytes, so it ends after at most 255 rounds.
\<close>

function mavlink_parse_char_drop_loop :: "mavlink_status_t \<Rightarrow> uint8_t \<Rightarrow> mavlink_status_t" where
  "mavlink_parse_char_drop_loop status rxseq =
     (if current_seq status \<noteq> rxseq
      then mavlink_parse_char_drop_loop
             (status\<lparr>packet_rx_drop_count := packet_rx_drop_count status + 1,
                     current_seq := current_seq status + 1\<rparr>) rxseq
      else status)"
  by pat_completeness auto
termination
proof (relation "measure (\<lambda>(status, rxseq). unat (rxseq - current_seq status))")
  show "wf (measure (\<lambda>(status, rxseq). unat (rxseq - current_seq status)))"
    by simp
next
  fix status :: mavlink_status_t and rxseq :: uint8_t
  assume ne: "current_seq status \<noteq> rxseq"
  then have nz: "rxseq - current_seq status \<noteq> 0"
    by simp
  then have "0 < unat (rxseq - current_seq status)"
    by (simp add: unat_gt_0)
  with nz have "unat (rxseq - current_seq status - 1) < unat (rxseq - current_seq status)"
    by (simp add: unat_minus_one)
  then have "unat (rxseq - (current_seq status + 1)) < unat (rxseq - current_seq status)"
    by (simp add: diff_diff_eq)
  then show
    "((status\<lparr>packet_rx_drop_count := packet_rx_drop_count status + 1,
               current_seq := current_seq status + 1\<rparr>, rxseq), (status, rxseq))
     \<in> measure (\<lambda>(status, rxseq). unat (rxseq - current_seq status))"
    by simp
qed

declare mavlink_parse_char_drop_loop.simps [simp del]

text \<open>Lines 262--274: the bookkeeping once a message has been decoded.\<close>

definition mavlink_parse_char_received ::
  "mavlink_status_t \<Rightarrow> mavlink_message_t \<Rightarrow> mavlink_status_t" where
  "mavlink_parse_char_received status rxmsg =
     (let status = mavlink_parse_char_drop_loop status (seq rxmsg);
          status = status\<lparr>current_seq := seq rxmsg\<rparr>;
          status = (if packet_rx_success_count status = 0
                    then status\<lparr>packet_rx_drop_count := 0\<rparr> else status)
      in status\<lparr>packet_rx_success_count := packet_rx_success_count status + 1\<rparr>)"

text \<open>
  One call of \<^verbatim>\<open>mavlink_parse_char\<close> on the selected channel: the channel afterwards, the
  caller's two objects afterwards, and the returned byte.
\<close>

record mavlink_parse_char_result =
  res_channel :: mavlink_channel
  res_message :: mavlink_message_t
  res_status :: mavlink_status_t
  res_return :: uint8_t

definition mavlink_parse_char ::
  "mavlink_env \<Rightarrow> mavlink_channel \<Rightarrow> uint8_t \<Rightarrow> mavlink_message_t \<Rightarrow> mavlink_status_t \<Rightarrow>
     fault + mavlink_parse_char_result" where
  "mavlink_parse_char env chan c r_message r_mavlink_status =
     (let status = mavlink_parse_state_initialize (m_mavlink_status chan);
          rxmsg = m_mavlink_message chan;
          status = status\<lparr>msg_received := 0\<rparr>
      in case mavlink_parse_char_switch env c status rxmsg r_message of
           Inl e \<Rightarrow> Inl e
         | Inr (status, rxmsg, r_message) \<Rightarrow>
             (let status = (if msg_received status = 1
                            then mavlink_parse_char_received status rxmsg else status);
                  r_mavlink_status = r_mavlink_status\<lparr>current_seq := current_seq status + 1\<rparr>;
                  r_mavlink_status = r_mavlink_status
                    \<lparr>packet_rx_success_count := packet_rx_success_count status\<rparr>;
                  r_mavlink_status = r_mavlink_status
                    \<lparr>packet_rx_drop_count := packet_rx_drop_count status\<rparr>
              in Inr \<lparr>res_channel = \<lparr>m_mavlink_status = status, m_mavlink_message = rxmsg\<rparr>,
                      res_message = r_message,
                      res_status = r_mavlink_status,
                      res_return = msg_received status\<rparr>))"

text \<open>
  The loop of the usage example in the comment above \<^verbatim>\<open>mavlink_parse_char\<close> (lines
  126--137): every byte of the stream goes through one call, and the caller's message is
  taken whenever the call returns non-zero. The result is the list of messages taken, the
  channel and the caller's two objects at the end.
\<close>

fun mavlink_parse_stream ::
  "mavlink_env \<Rightarrow> uint8_t list \<Rightarrow> mavlink_channel \<Rightarrow> mavlink_message_t \<Rightarrow> mavlink_status_t \<Rightarrow>
     fault + (mavlink_message_t list \<times> mavlink_channel \<times> mavlink_message_t \<times> mavlink_status_t)" where
  "mavlink_parse_stream env [] chan msg st = Inr ([], chan, msg, st)"
| "mavlink_parse_stream env (byte # bytes) chan msg st =
     (case mavlink_parse_char env chan byte msg st of
        Inl e \<Rightarrow> Inl e
      | Inr r \<Rightarrow>
          (case mavlink_parse_stream env bytes (res_channel r) (res_message r) (res_status r) of
             Inl e \<Rightarrow> Inl e
           | Inr (msgs, fin) \<Rightarrow>
               Inr ((if res_return r \<noteq> 0 then [res_message r] else []) @ msgs, fin)))"

subsection \<open>A checksum engine for concrete inputs\<close>

text \<open>
  Modelled from the spec: one instance of the parameters, for evaluating the functions on
  concrete bytes. The delimiter is the byte \<open>0x55\<close>; the checksum is "a 16-bit table-free
  CRC variant seeded to a fixed non-zero initial value [...] and updated one byte at a time
  via XOR/shift recurrence", here the X.25 recurrence seeded with \<open>0xffff\<close>. The general
  statements below hold for every \<open>mavlink_env\<close>.
\<close>

definition crc_accumulate_x25 :: "uint8_t \<Rightarrow> uint16_t \<Rightarrow> uint16_t" where
  "crc_accumulate_x25 data crcAccum =
     (let tmp = data XOR ucast (crcAccum AND 0xff);
          tmp = tmp XOR push_bit 4 tmp
      in drop_bit 8 crcAccum XOR push_bit 8 (ucast tmp) XOR push_bit 3 (ucast tmp) XOR
         ucast (drop_bit 4 tmp))"

definition mavlink_env_x25 :: mavlink_env where
  "mavlink_env_x25 =
     \<lparr>MAVLINK_STX = 0x55, crcInit = 0xffff, crcAccumulate = crc_accumulate_x25\<rparr>"

subsection \<open>The invariant of the payload cursor\<close>

text \<open>
  What holds of a channel between calls: the payload array has its declared size, the
  cursor \<^verbatim>\<open>packet_idx\<close> has not passed the length byte of the message under construction,
  it is still 0 while the header is being read, and it is strictly below the length while
  payload bytes are expected.
\<close>

definition mavlink_cursor_ok :: "mavlink_channel \<Rightarrow> bool" where
  "mavlink_cursor_ok chan =
     (let status = m_mavlink_status chan; rxmsg = m_mavlink_message chan in
      mavlink_message_ok rxmsg \<and>
      unat (packet_idx status) \<le> unat (len rxmsg) \<and>
      (MAVLINK_PARSE_STATE_GOT_LENGTH \<le> parse_state status \<and>
       parse_state status \<le> MAVLINK_PARSE_STATE_GOT_COMPID \<longrightarrow> packet_idx status = 0) \<and>
      (parse_state status = MAVLINK_PARSE_STATE_GOT_MSGID \<longrightarrow>
         unat (packet_idx status) < unat (len rxmsg)))"

section \<open>Properties\<close>

subsection \<open>Bytes of a word\<close>

lemma ucast_and_mask8: "ucast (w AND mask 8) = (ucast w :: 8 word)" for w :: "'a::len word"
  by (rule bit_word_eqI) (auto simp: bit_simps dest: bit_imp_le_length)

lemma ucast_byte_mask: "ucast (w AND 0xff) = (ucast w :: 8 word)" for w :: "'a::len word"
proof -
  have h: "(0xff :: 'a word) = mask 8"
    by (simp add: mask_eq_exp_minus_1)
  show ?thesis
    by (simp only: h ucast_and_mask8)
qed

lemma ucast_signed_drop_bit_24:
  "ucast (signed_drop_bit 24 b) = (ucast (drop_bit 24 b) :: 8 word)" for b :: "32 word"
  by (rule bit_word_eqI) (auto simp: bit_simps)

lemma ucast_signed_drop_bit_16:
  "ucast (signed_drop_bit 16 b) = (ucast (drop_bit 16 b) :: 8 word)" for b :: "32 word"
  by (rule bit_word_eqI) (auto simp: bit_simps)

lemma ucast_signed_drop_bit_8:
  "ucast (signed_drop_bit 8 b) = (ucast (drop_bit 8 b) :: 8 word)" for b :: "32 word"
  by (rule bit_word_eqI) (auto simp: bit_simps)

lemma checksum_c0_s [simp]: "checksum_c0 (checksum_s c0 c1) = c0"
  unfolding checksum_c0_def checksum_s_def
  by (rule bit_word_eqI) (auto simp: bit_simps)

lemma checksum_c1_s [simp]: "checksum_c1 (checksum_s c0 c1) = c1"
  unfolding checksum_c1_def checksum_s_def
  by (rule bit_word_eqI) (auto simp: bit_simps)

lemma checksum_s_c [simp]: "checksum_s (checksum_c0 s) (checksum_c1 s) = s"
  unfolding checksum_c0_def checksum_c1_def checksum_s_def
  by (rule bit_word_eqI) (auto simp: bit_simps)

lemma ucast_pred:
  fixes x :: "8 word"
  assumes "x \<noteq> 0"
  shows "(1 :: 16 word) + ucast (x - 1) = ucast x"
proof -
  have pos: "0 < unat x"
    using assms by (simp add: unat_gt_0)
  have m: "unat (x - 1) = unat x - 1"
    using assms by (rule unat_minus_one)
  have "(ucast (x - 1) :: 16 word) = of_nat (unat (x - 1))"
    by (simp only: of_nat_unat)
  then have a: "(ucast (x - 1) :: 16 word) = of_nat (unat x - 1)"
    by (simp only: m)
  have b: "(ucast x :: 16 word) = of_nat (unat x)"
    by (simp only: of_nat_unat)
  have "(1 :: 16 word) + of_nat (unat x - 1) = of_nat (Suc (unat x - 1))"
    by (simp only: of_nat_Suc add.commute)
  also have "Suc (unat x - 1) = unat x"
    using pos by arith
  finally show ?thesis
    by (simp only: a b)
qed

subsection \<open>Writes into a buffer\<close>

lemma update_after_block:
  "i + length bs < length xs \<Longrightarrow>
   (take i xs @ bs @ drop (i + length bs) xs)[i + length bs := b] =
   take i xs @ (bs @ [b]) @ drop (i + length (bs @ [b])) xs"
  by (simp add: list_update_append upd_conv_take_nth_drop Cons_nth_drop_Suc min_def)

lemma update1: "i < length xs \<Longrightarrow> xs[i := a] = take i xs @ [a] @ drop (i + 1) xs"
  using update_after_block [of i "[]" xs a] by (simp add: eval_nat_numeral)

lemma update2:
  "i + 1 < length xs \<Longrightarrow> xs[i := a, i + 1 := b] = take i xs @ [a, b] @ drop (i + 2) xs"
  using update_after_block [of i "[]" xs a] update_after_block [of i "[a]" xs b]
  by (simp add: eval_nat_numeral)

lemma update4:
  "i + 3 < length xs \<Longrightarrow>
   xs[i := a, i + 1 := b, i + 2 := c, i + 3 := d] = take i xs @ [a, b, c, d] @ drop (i + 4) xs"
  using update_after_block [of i "[]" xs a] update_after_block [of i "[a]" xs b]
    update_after_block [of i "[a, b]" xs c] update_after_block [of i "[a, b, c]" xs d]
  by (simp add: eval_nat_numeral)

lemma update8:
  "i + 7 < length xs \<Longrightarrow>
   xs[i := a, i + 1 := b, i + 2 := c, i + 3 := d, i + 4 := e, i + 5 := f, i + 6 := g,
      i + 7 := h] =
   take i xs @ [a, b, c, d, e, f, g, h] @ drop (i + 8) xs"
  using update_after_block [of i "[]" xs a] update_after_block [of i "[a]" xs b]
    update_after_block [of i "[a, b]" xs c] update_after_block [of i "[a, b, c]" xs d]
    update_after_block [of i "[a, b, c, d]" xs e]
    update_after_block [of i "[a, b, c, d, e]" xs f]
    update_after_block [of i "[a, b, c, d, e, f]" xs g]
    update_after_block [of i "[a, b, c, d, e, f, g]" xs h]
  by (simp add: eval_nat_numeral)

subsection \<open>Field packing\<close>

lemma big_endian_2: "big_endian 2 v = [ucast (drop_bit 8 v), ucast v]"
  by (simp add: big_endian_def upt_rec)

lemma big_endian_4:
  "big_endian 4 v = [ucast (drop_bit 24 v), ucast (drop_bit 16 v), ucast (drop_bit 8 v), ucast v]"
  by (simp add: big_endian_def upt_rec)

lemma big_endian_8:
  "big_endian 8 v =
     [ucast (drop_bit 56 v), ucast (drop_bit 48 v), ucast (drop_bit 40 v),
      ucast (drop_bit 32 v), ucast (drop_bit 24 v), ucast (drop_bit 16 v),
      ucast (drop_bit 8 v), ucast v]"
  by (simp add: big_endian_def upt_rec)

lemma put_uint8_t_layout:
  "unat bindex < length buffer \<Longrightarrow>
   put_uint8_t_by_index b bindex buffer =
     Inr (take (unat bindex) buffer @ [b] @ drop (unat bindex + 1) buffer, 1)"
  using update1 [of "unat bindex" buffer b]
  by (simp add: put_uint8_t_by_index_def)

lemma put_uint16_t_layout:
  "unat bindex + 2 \<le> length buffer \<Longrightarrow>
   put_uint16_t_by_index b bindex buffer =
     Inr (take (unat bindex) buffer @ big_endian 2 b @ drop (unat bindex + 2) buffer, 2)"
  using update2 [of "unat bindex" buffer "ucast (drop_bit 8 b)" "ucast b"]
  by (simp add: put_uint16_t_by_index_def big_endian_2 ucast_byte_mask)

lemma put_uint32_t_layout:
  "unat bindex + 4 \<le> length buffer \<Longrightarrow>
   put_uint32_t_by_index b bindex buffer =
     Inr (take (unat bindex) buffer @ big_endian 4 b @ drop (unat bindex + 4) buffer, 4)"
  using update4 [of "unat bindex" buffer "ucast (drop_bit 24 b)" "ucast (drop_bit 16 b)"
      "ucast (drop_bit 8 b)" "ucast b"]
  by (simp add: put_uint32_t_by_index_def big_endian_4 ucast_byte_mask)

lemma put_int32_t_layout:
  "unat bindex + 4 \<le> length buffer \<Longrightarrow>
   put_int32_t_by_index b bindex buffer =
     Inr (take (unat bindex) buffer @ big_endian 4 b @ drop (unat bindex + 4) buffer, 4)"
  using update4 [of "unat bindex" buffer "ucast (drop_bit 24 b)" "ucast (drop_bit 16 b)"
      "ucast (drop_bit 8 b)" "ucast b"]
  by (simp add: put_int32_t_by_index_def big_endian_4 ucast_byte_mask
      ucast_signed_drop_bit_24 ucast_signed_drop_bit_16 ucast_signed_drop_bit_8)

lemma put_uint64_t_layout:
  "unat bindex + 8 \<le> length buffer \<Longrightarrow>
   put_uint64_t_by_index b bindex buffer =
     Inr (take (unat bindex) buffer @ big_endian 8 b @ drop (unat bindex + 8) buffer, 8)"
  using update8 [of "unat bindex" buffer "ucast (drop_bit 56 b)" "ucast (drop_bit 48 b)"
      "ucast (drop_bit 40 b)" "ucast (drop_bit 32 b)" "ucast (drop_bit 24 b)"
      "ucast (drop_bit 16 b)" "ucast (drop_bit 8 b)" "ucast b"]
  by (simp add: put_uint64_t_by_index_def big_endian_8 ucast_byte_mask)

text \<open>
  C6. Where the buffer has room for the field at the offset, each \<^verbatim>\<open>put_..._by_index\<close>
  leaves the buffer unchanged except for the W/8 bytes from the offset on, which hold the
  value in big-endian order, and returns W/8: one byte for \<^verbatim>\<open>uint8_t\<close>, two for the
  16-bit functions, four for the 32-bit ones and for the float (whose 32-bit pattern is
  written as it is), eight for the 64-bit ones.
\<close>

theorem put_by_index_big_endian:
  "(unat bindex < length buffer \<longrightarrow>
      put_uint8_t_by_index b8 bindex buffer =
        Inr (take (unat bindex) buffer @ [b8] @ drop (unat bindex + 1) buffer, 1)) \<and>
   (unat bindex + 2 \<le> length buffer \<longrightarrow>
      put_uint16_t_by_index u16 bindex buffer =
        Inr (take (unat bindex) buffer @ big_endian 2 u16 @ drop (unat bindex + 2) buffer, 2) \<and>
      put_int16_t_by_index i16 bindex buffer =
        Inr (take (unat bindex) buffer @ big_endian 2 i16 @ drop (unat bindex + 2) buffer, 2)) \<and>
   (unat bindex + 4 \<le> length buffer \<longrightarrow>
      put_uint32_t_by_index u32 bindex buffer =
        Inr (take (unat bindex) buffer @ big_endian 4 u32 @ drop (unat bindex + 4) buffer, 4) \<and>
      put_int32_t_by_index i32 bindex buffer =
        Inr (take (unat bindex) buffer @ big_endian 4 i32 @ drop (unat bindex + 4) buffer, 4) \<and>
      put_float_by_index f bindex buffer =
        Inr (take (unat bindex) buffer @ big_endian 4 f @ drop (unat bindex + 4) buffer, 4)) \<and>
   (unat bindex + 8 \<le> length buffer \<longrightarrow>
      put_uint64_t_by_index u64 bindex buffer =
        Inr (take (unat bindex) buffer @ big_endian 8 u64 @ drop (unat bindex + 8) buffer, 8) \<and>
      put_int64_t_by_index i64 bindex buffer =
        Inr (take (unat bindex) buffer @ big_endian 8 i64 @ drop (unat bindex + 8) buffer, 8))"
  by (simp add: put_uint8_t_layout put_uint16_t_layout put_uint32_t_layout put_int32_t_layout
      put_uint64_t_layout put_int16_t_by_index_def put_int64_t_by_index_def
      put_float_by_index_def)

theorem put_by_index_big_endian_witness:
  "put_uint8_t_by_index 0xAB 1 [0, 0, 0, 0, 0, 0, 0, 0, 0, 0] =
     Inr ([0, 0xAB, 0, 0, 0, 0, 0, 0, 0, 0], 1) \<and>
   put_uint16_t_by_index 0x1234 1 [0, 0, 0, 0, 0, 0, 0, 0, 0, 0] =
     Inr ([0, 0x12, 0x34, 0, 0, 0, 0, 0, 0, 0], 2) \<and>
   put_int16_t_by_index (- 2) 1 [0, 0, 0, 0, 0, 0, 0, 0, 0, 0] =
     Inr ([0, 0xFF, 0xFE, 0, 0, 0, 0, 0, 0, 0], 2) \<and>
   put_uint32_t_by_index 0x12345678 1 [0, 0, 0, 0, 0, 0, 0, 0, 0, 0] =
     Inr ([0, 0x12, 0x34, 0x56, 0x78, 0, 0, 0, 0, 0], 4) \<and>
   put_int32_t_by_index (- 2) 1 [0, 0, 0, 0, 0, 0, 0, 0, 0, 0] =
     Inr ([0, 0xFF, 0xFF, 0xFF, 0xFE, 0, 0, 0, 0, 0], 4) \<and>
   put_float_by_index 0x3F800000 1 [0, 0, 0, 0, 0, 0, 0, 0, 0, 0] =
     Inr ([0, 0x3F, 0x80, 0, 0, 0, 0, 0, 0, 0], 4) \<and>
   put_uint64_t_by_index 0x0102030405060708 1 [0, 0, 0, 0, 0, 0, 0, 0, 0, 0] =
     Inr ([0, 1, 2, 3, 4, 5, 6, 7, 8, 0], 8) \<and>
   put_int64_t_by_index (- 2) 1 [0, 0, 0, 0, 0, 0, 0, 0, 0, 0] =
     Inr ([0, 0xFF, 0xFF, 0xFF, 0xFF, 0xFF, 0xFF, 0xFF, 0xFE, 0], 8)"
  using put_by_index_big_endian [of 1 "[0, 0, 0, 0, 0, 0, 0, 0, 0, 0]" "0xAB" "0x1234" "- 2"
      "0x12345678" "- 2" "0x3F800000" "0x0102030405060708" "- 2"]
  by (simp add: big_endian_2 big_endian_4 big_endian_8)
subsection \<open>One call of the parser\<close>

lemmas parse_state_defs =
  MAVLINK_PARSE_STATE_UNINIT_def MAVLINK_PARSE_STATE_IDLE_def MAVLINK_PARSE_STATE_GOT_STX_def
  MAVLINK_PARSE_STATE_GOT_LENGTH_def MAVLINK_PARSE_STATE_GOT_SEQ_def
  MAVLINK_PARSE_STATE_GOT_SYSID_def MAVLINK_PARSE_STATE_GOT_COMPID_def
  MAVLINK_PARSE_STATE_GOT_MSGID_def MAVLINK_PARSE_STATE_GOT_PAYLOAD_def
  MAVLINK_PARSE_STATE_GOT_CRC1_def

lemmas parse_char_defs =
  mavlink_parse_char_def mavlink_parse_char_switch_def mavlink_parse_state_initialize_def
  mavlink_update_checksum_def mavlink_start_checksum_def Let_def

lemmas zero_defs =
  mavlink_channel_fresh_def mavlink_status_zero_def mavlink_message_zero_def

lemma drop_loop_closed:
  "mavlink_parse_char_drop_loop status rxseq =
     status\<lparr>packet_rx_drop_count :=
              packet_rx_drop_count status + ucast (rxseq - current_seq status),
            current_seq := rxseq\<rparr>"
proof (induction status rxseq rule: mavlink_parse_char_drop_loop.induct)
  case (1 status rxseq)
  show ?case
  proof (cases "current_seq status = rxseq")
    case True
    then show ?thesis
      by (subst mavlink_parse_char_drop_loop.simps) simp
  next
    case False
    then have nz: "rxseq - current_seq status \<noteq> 0"
      by simp
    have w: "(1 :: 16 word) + ucast (rxseq - current_seq status - 1) =
             ucast (rxseq - current_seq status)"
      using nz by (rule ucast_pred)
    have e: "rxseq - (current_seq status + 1) = rxseq - current_seq status - 1"
      by (simp only: diff_diff_eq)
    have "mavlink_parse_char_drop_loop status rxseq =
          mavlink_parse_char_drop_loop
             (status\<lparr>packet_rx_drop_count := packet_rx_drop_count status + 1,
                     current_seq := current_seq status + 1\<rparr>) rxseq"
      using False by (subst mavlink_parse_char_drop_loop.simps) simp
    also have "\<dots> = status\<lparr>packet_rx_drop_count :=
              packet_rx_drop_count status + (1 + ucast (rxseq - current_seq status - 1)),
            current_seq := rxseq\<rparr>"
      using False by (simp add: "1.IH" e add.assoc del: diff_diff_eq)
    finally show ?thesis
      by (simp only: w)
  qed
qed

lemma received_closed:
  "mavlink_parse_char_received status rxmsg =
     status\<lparr>packet_rx_drop_count :=
              (if packet_rx_success_count status = 0 then 0
               else packet_rx_drop_count status + ucast (seq rxmsg - current_seq status)),
            current_seq := seq rxmsg,
            packet_rx_success_count := packet_rx_success_count status + 1\<rparr>"
  by (simp add: mavlink_parse_char_received_def drop_loop_closed Let_def)

text \<open>
  C10. A call that returns 0 leaves the caller's message as it was: the only store to
  \<^verbatim>\<open>r_message\<close> is the copy in the accepting branch, and that call returns 1.
\<close>

theorem r_message_written_only_on_accept:
  "mavlink_parse_char env chan c r_message r_mavlink_status = Inr r \<Longrightarrow>
   (res_return r = 0 \<longrightarrow> res_message r = r_message) \<and>
   (res_message r \<noteq> r_message \<longrightarrow> res_return r = 1)"
  by (auto simp: parse_char_defs received_closed split: if_splits)

theorem r_message_written_only_on_accept_witness:
  "\<exists>r. mavlink_parse_char mavlink_env_x25 mavlink_channel_fresh 0x55
          (mavlink_message_zero\<lparr>msgid := 7\<rparr>) mavlink_status_zero = Inr r \<and>
        res_return r = 0 \<and> res_message r = mavlink_message_zero\<lparr>msgid := 7\<rparr>"
proof -
  obtain r where r: "mavlink_parse_char mavlink_env_x25 mavlink_channel_fresh 0x55
          (mavlink_message_zero\<lparr>msgid := 7\<rparr>) mavlink_status_zero = Inr r"
    and ret: "res_return r = 0"
    by (simp add: parse_char_defs zero_defs parse_state_defs mavlink_env_x25_def)
  from r_message_written_only_on_accept [OF r] ret
  have "res_message r = mavlink_message_zero\<lparr>msgid := 7\<rparr>"
    by simp
  with r ret show ?thesis
    by blast
qed

text \<open>
  C5. In state \<^verbatim>\<open>GOT_PAYLOAD\<close> a byte other than the low checksum byte \<^verbatim>\<open>rxmsg->ck_a\<close>,
  and in state \<^verbatim>\<open>GOT_CRC1\<close> a byte other than the high checksum byte \<^verbatim>\<open>rxmsg->ck_b\<close>,
  adds one to \<^verbatim>\<open>parse_error\<close> (an 8-bit counter), puts the channel in \<^verbatim>\<open>IDLE\<close>, returns 0
  and leaves the caller's message alone.
\<close>

theorem checksum_mismatch_rejected:
  assumes "parse_state (m_mavlink_status chan) = MAVLINK_PARSE_STATE_GOT_PAYLOAD \<and>
             c \<noteq> mavlink_message_t.ck_a (m_mavlink_message chan) \<or>
           parse_state (m_mavlink_status chan) = MAVLINK_PARSE_STATE_GOT_CRC1 \<and>
             c \<noteq> mavlink_message_t.ck_b (m_mavlink_message chan)"
  shows "\<exists>r. mavlink_parse_char env chan c r_message r_mavlink_status = Inr r \<and>
           parse_error (m_mavlink_status (res_channel r)) =
             parse_error (m_mavlink_status chan) + 1 \<and>
           parse_state (m_mavlink_status (res_channel r)) = MAVLINK_PARSE_STATE_IDLE \<and>
           res_return r = 0 \<and> res_message r = r_message"
  using assms by (auto simp: parse_char_defs parse_state_defs)

theorem checksum_mismatch_rejected_witness:
  "\<exists>r. mavlink_parse_char mavlink_env_x25
          (mavlink_channel_fresh\<lparr>m_mavlink_status :=
             mavlink_status_zero\<lparr>parse_state := MAVLINK_PARSE_STATE_GOT_CRC1,
                                  parse_error := 4\<rparr>\<rparr>)
          1 mavlink_message_zero mavlink_status_zero = Inr r \<and>
        parse_error (m_mavlink_status (res_channel r)) = 5 \<and>
        parse_state (m_mavlink_status (res_channel r)) = MAVLINK_PARSE_STATE_IDLE \<and>
        res_return r = 0 \<and> res_message r = mavlink_message_zero"
  using checksum_mismatch_rejected [of
      "mavlink_channel_fresh\<lparr>m_mavlink_status :=
             mavlink_status_zero\<lparr>parse_state := MAVLINK_PARSE_STATE_GOT_CRC1,
                                  parse_error := 4\<rparr>\<rparr>"
      1 mavlink_env_x25 mavlink_message_zero mavlink_status_zero]
  by (simp add: zero_defs)

subsection \<open>A stream of bytes\<close>

lemma stream_case_quiet [simp]:
  "(case x of Inl e \<Rightarrow> Inl e | Inr (msgs, fin) \<Rightarrow> Inr ([] @ msgs, fin)) = x"
  by (simp split: sum.splits prod.splits)

lemma stream_header_idle:
  assumes "parse_state (m_mavlink_status chan) = MAVLINK_PARSE_STATE_IDLE"
  shows "mavlink_parse_stream env (MAVLINK_STX env # l # s # sy # co # mi # rest) chan msg st =
         mavlink_parse_stream env rest
           \<lparr>m_mavlink_status = (m_mavlink_status chan)
              \<lparr>msg_received := 0, packet_idx := 0,
               parse_state := (if l = 0 then MAVLINK_PARSE_STATE_GOT_PAYLOAD
                               else MAVLINK_PARSE_STATE_GOT_MSGID)\<rparr>,
            m_mavlink_message = (m_mavlink_message chan)
              \<lparr>len := l, seq := s, sysid := sy, compid := co, msgid := mi,
               mavlink_message_t.ck_a :=
                 checksum_c0 (fold (crcAccumulate env) [l, s, sy, co, mi] (crcInit env)),
               mavlink_message_t.ck_b :=
                 checksum_c1 (fold (crcAccumulate env) [l, s, sy, co, mi] (crcInit env))\<rparr>\<rparr>
           msg
           (st\<lparr>current_seq := current_seq (m_mavlink_status chan) + 1,
               packet_rx_success_count := packet_rx_success_count (m_mavlink_status chan),
               packet_rx_drop_count := packet_rx_drop_count (m_mavlink_status chan)\<rparr>)"
  using assms
  by (cases "m_mavlink_status chan") (simp add: parse_char_defs parse_state_defs)


lemma stream_header_uninit:
  assumes "parse_state (m_mavlink_status chan) = MAVLINK_PARSE_STATE_UNINIT"
  shows "mavlink_parse_stream env (MAVLINK_STX env # l # s # sy # co # mi # rest) chan msg st =
         mavlink_parse_stream env rest
           \<lparr>m_mavlink_status = (mavlink_parse_state_initialize (m_mavlink_status chan))
              \<lparr>msg_received := 0, packet_idx := 0,
               parse_state := (if l = 0 then MAVLINK_PARSE_STATE_GOT_PAYLOAD
                               else MAVLINK_PARSE_STATE_GOT_MSGID)\<rparr>,
            m_mavlink_message = (m_mavlink_message chan)
              \<lparr>len := l, seq := s, sysid := sy, compid := co, msgid := mi,
               mavlink_message_t.ck_a :=
                 checksum_c0 (fold (crcAccumulate env) [l, s, sy, co, mi] (crcInit env)),
               mavlink_message_t.ck_b :=
                 checksum_c1 (fold (crcAccumulate env) [l, s, sy, co, mi] (crcInit env))\<rparr>\<rparr>
           msg
           (st\<lparr>current_seq := current_seq (m_mavlink_status chan) + 1,
               packet_rx_success_count := 0,
               packet_rx_drop_count := 0\<rparr>)"
  using assms
  by (cases "m_mavlink_status chan") (simp add: parse_char_defs parse_state_defs)

lemma unat_succ_below:
  fixes i l :: "8 word"
  assumes "unat i < unat l"
  shows "unat (i + 1) = unat i + 1" and "(i + 1 = l) = (unat i + 1 = unat l)"
proof -
  have "unat l < 256"
    using unsigned_less [of l] by simp
  with assms have "unat i + unat (1 :: 8 word) < 2 ^ LENGTH(8)"
    by simp
  then have "unat (i + 1) = unat i + unat (1 :: 8 word)"
    by (simp only: unat_add_lem [THEN iffD1])
  then show a: "unat (i + 1) = unat i + 1"
    by simp
  show "(i + 1 = l) = (unat i + 1 = unat l)"
    using a by (simp add: word_unat_eq_iff)
qed

lemma stream_payload_step:
  assumes "parse_state (m_mavlink_status chan) = MAVLINK_PARSE_STATE_GOT_MSGID"
    and "unat (packet_idx (m_mavlink_status chan)) < length (payload (m_mavlink_message chan))"
  shows "mavlink_parse_stream env (c # cs) chan msg st =
         mavlink_parse_stream env cs
           \<lparr>m_mavlink_status = (m_mavlink_status chan)
              \<lparr>msg_received := 0,
               packet_idx := packet_idx (m_mavlink_status chan) + 1,
               parse_state :=
                 (if packet_idx (m_mavlink_status chan) + 1 = len (m_mavlink_message chan)
                  then MAVLINK_PARSE_STATE_GOT_PAYLOAD else MAVLINK_PARSE_STATE_GOT_MSGID)\<rparr>,
            m_mavlink_message = (m_mavlink_message chan)
              \<lparr>payload := (payload (m_mavlink_message chan))
                            [unat (packet_idx (m_mavlink_status chan)) := c],
               mavlink_message_t.ck_a :=
                 checksum_c0 (crcAccumulate env c
                   (checksum_s (mavlink_message_t.ck_a (m_mavlink_message chan))
                               (mavlink_message_t.ck_b (m_mavlink_message chan)))),
               mavlink_message_t.ck_b :=
                 checksum_c1 (crcAccumulate env c
                   (checksum_s (mavlink_message_t.ck_a (m_mavlink_message chan))
                               (mavlink_message_t.ck_b (m_mavlink_message chan))))\<rparr>\<rparr>
           msg
           (st\<lparr>current_seq := current_seq (m_mavlink_status chan) + 1,
               packet_rx_success_count := packet_rx_success_count (m_mavlink_status chan),
               packet_rx_drop_count := packet_rx_drop_count (m_mavlink_status chan)\<rparr>)"
  using assms
  by (cases "m_mavlink_status chan") (simp add: parse_char_defs parse_state_defs)


lemma take_drop_update:
  assumes "i < length pl"
  shows "take (Suc i) (pl[i := c]) @ q @ drop (Suc i + length q) (pl[i := c]) =
         take i pl @ (c # q) @ drop (i + length (c # q)) pl"
  using assms by (simp add: take_Suc_conv_app_nth)

lemma stream_payload:
  assumes "parse_state (m_mavlink_status chan) = MAVLINK_PARSE_STATE_GOT_MSGID"
    and "q \<noteq> []"
    and "unat (packet_idx (m_mavlink_status chan)) + length q = unat (len (m_mavlink_message chan))"
    and "unat (len (m_mavlink_message chan)) \<le> length (payload (m_mavlink_message chan))"
  shows "mavlink_parse_stream env (q @ rest) chan msg st =
         mavlink_parse_stream env rest
           \<lparr>m_mavlink_status = (m_mavlink_status chan)
              \<lparr>msg_received := 0,
               packet_idx := len (m_mavlink_message chan),
               parse_state := MAVLINK_PARSE_STATE_GOT_PAYLOAD\<rparr>,
            m_mavlink_message = (m_mavlink_message chan)
              \<lparr>payload :=
                 take (unat (packet_idx (m_mavlink_status chan))) (payload (m_mavlink_message chan)) @
                 q @
                 drop (unat (packet_idx (m_mavlink_status chan)) + length q)
                   (payload (m_mavlink_message chan)),
               mavlink_message_t.ck_a :=
                 checksum_c0 (fold (crcAccumulate env) q
                   (checksum_s (mavlink_message_t.ck_a (m_mavlink_message chan))
                               (mavlink_message_t.ck_b (m_mavlink_message chan)))),
               mavlink_message_t.ck_b :=
                 checksum_c1 (fold (crcAccumulate env) q
                   (checksum_s (mavlink_message_t.ck_a (m_mavlink_message chan))
                               (mavlink_message_t.ck_b (m_mavlink_message chan))))\<rparr>\<rparr>
           msg
           (st\<lparr>current_seq := current_seq (m_mavlink_status chan) + 1,
               packet_rx_success_count := packet_rx_success_count (m_mavlink_status chan),
               packet_rx_drop_count := packet_rx_drop_count (m_mavlink_status chan)\<rparr>)"
  using assms
proof (induction q arbitrary: chan st)
  case Nil
  then show ?case by simp
next
  case (Cons c q)
  let ?i = "packet_idx (m_mavlink_status chan)"
  let ?l = "len (m_mavlink_message chan)"
  let ?pl = "payload (m_mavlink_message chan)"
  have lt: "unat ?i < unat ?l"
    using Cons.prems(3) by simp
  then have in_range: "unat ?i < length ?pl"
    using Cons.prems(4) by simp
  note step = stream_payload_step [OF Cons.prems(1) in_range, of env c "q @ rest" msg st]
  note succ = unat_succ_below [OF lt]
  show ?case
  proof (cases "q = []")
    case True
    then have "?i + 1 = ?l"
      using succ(2) Cons.prems(3) by simp
    with True step in_range show ?thesis
      by (cases "m_mavlink_status chan"; cases "m_mavlink_message chan")
        (simp add: upd_conv_take_nth_drop)
  next
    case False
    then have "0 < length q"
      by simp
    moreover have "unat ?i + Suc (length q) = unat ?l"
      using Cons.prems(3) by simp
    ultimately have "unat ?i + 1 \<noteq> unat ?l"
      by arith
    then have ne: "?i + 1 \<noteq> ?l"
      by (simp only: succ(2) not_False_eq_True)
    let ?chan = "\<lparr>m_mavlink_status = (m_mavlink_status chan)
              \<lparr>msg_received := 0, packet_idx := ?i + 1,
               parse_state := MAVLINK_PARSE_STATE_GOT_MSGID\<rparr>,
            m_mavlink_message = (m_mavlink_message chan)
              \<lparr>payload := ?pl[unat ?i := c],
               mavlink_message_t.ck_a :=
                 checksum_c0 (crcAccumulate env c
                   (checksum_s (mavlink_message_t.ck_a (m_mavlink_message chan))
                               (mavlink_message_t.ck_b (m_mavlink_message chan)))),
               mavlink_message_t.ck_b :=
                 checksum_c1 (crcAccumulate env c
                   (checksum_s (mavlink_message_t.ck_a (m_mavlink_message chan))
                               (mavlink_message_t.ck_b (m_mavlink_message chan))))\<rparr>\<rparr>"
    let ?st = "st\<lparr>current_seq := current_seq (m_mavlink_status chan) + 1,
               packet_rx_success_count := packet_rx_success_count (m_mavlink_status chan),
               packet_rx_drop_count := packet_rx_drop_count (m_mavlink_status chan)\<rparr>"
    have a: "parse_state (m_mavlink_status ?chan) = MAVLINK_PARSE_STATE_GOT_MSGID"
      by simp
    have b: "unat (packet_idx (m_mavlink_status ?chan)) + length q =
             unat (len (m_mavlink_message ?chan))"
      using succ(1) Cons.prems(3) by simp
    have d: "unat (len (m_mavlink_message ?chan)) \<le> length (payload (m_mavlink_message ?chan))"
      using Cons.prems(4) by simp
    note ih = Cons.IH [OF a False b d, of ?st]
    have pl: "take (Suc (unat ?i)) (?pl[unat ?i := c]) @ q @
                drop (Suc (unat ?i) + length q) (?pl[unat ?i := c]) =
              take (unat ?i) ?pl @ (c # q) @ drop (unat ?i + length (c # q)) ?pl"
      using in_range by (rule take_drop_update)
    have "mavlink_parse_stream env ((c # q) @ rest) chan msg st =
          mavlink_parse_stream env (q @ rest) ?chan msg ?st"
      using step ne by simp
    also note ih
    finally show ?thesis
      using pl succ(1)
      by (cases "m_mavlink_status chan"; cases "m_mavlink_message chan") simp
  qed
qed


lemma initialize_idle:
  "parse_state status = MAVLINK_PARSE_STATE_IDLE \<Longrightarrow>
   mavlink_parse_state_initialize status = status"
  by (simp add: mavlink_parse_state_initialize_def parse_state_defs)

lemma initialize_uninit:
  "parse_state status = MAVLINK_PARSE_STATE_UNINIT \<Longrightarrow>
   packet_rx_success_count (mavlink_parse_state_initialize status) = 0 \<and>
   packet_rx_drop_count (mavlink_parse_state_initialize status) = 0"
  by (simp add: mavlink_parse_state_initialize_def parse_state_defs)

text \<open>
  From a waiting channel, the delimiter, the five header bytes and \<open>length p = l\<close>
  payload bytes lead to \<^verbatim>\<open>GOT_PAYLOAD\<close>, with the running checksum of header and payload.
\<close>

lemma stream_frame_prefix:
  assumes wait: "parse_state (m_mavlink_status chan) = MAVLINK_PARSE_STATE_UNINIT \<or>
                 parse_state (m_mavlink_status chan) = MAVLINK_PARSE_STATE_IDLE"
    and lp: "length p = unat l"
    and room: "unat l \<le> length (payload (m_mavlink_message chan))"
  shows "mavlink_parse_stream env (MAVLINK_STX env # l # s # sy # co # mi # p @ rest) chan msg st =
         mavlink_parse_stream env rest
           \<lparr>m_mavlink_status = (mavlink_parse_state_initialize (m_mavlink_status chan))
              \<lparr>msg_received := 0, packet_idx := l,
               parse_state := MAVLINK_PARSE_STATE_GOT_PAYLOAD\<rparr>,
            m_mavlink_message = (m_mavlink_message chan)
              \<lparr>len := l, seq := s, sysid := sy, compid := co, msgid := mi,
               payload := p @ drop (length p) (payload (m_mavlink_message chan)),
               mavlink_message_t.ck_a :=
                 checksum_c0 (fold (crcAccumulate env) (l # s # sy # co # mi # p) (crcInit env)),
               mavlink_message_t.ck_b :=
                 checksum_c1 (fold (crcAccumulate env) (l # s # sy # co # mi # p) (crcInit env))\<rparr>\<rparr>
           msg
           (st\<lparr>current_seq := current_seq (m_mavlink_status chan) + 1,
               packet_rx_success_count :=
                 packet_rx_success_count (mavlink_parse_state_initialize (m_mavlink_status chan)),
               packet_rx_drop_count :=
                 packet_rx_drop_count (mavlink_parse_state_initialize (m_mavlink_status chan))\<rparr>)"
proof -
  let ?init = "mavlink_parse_state_initialize (m_mavlink_status chan)"
  let ?crc5 = "fold (crcAccumulate env) [l, s, sy, co, mi] (crcInit env)"
  let ?chan = "\<lparr>m_mavlink_status = ?init
              \<lparr>msg_received := 0, packet_idx := 0,
               parse_state := (if l = 0 then MAVLINK_PARSE_STATE_GOT_PAYLOAD
                               else MAVLINK_PARSE_STATE_GOT_MSGID)\<rparr>,
            m_mavlink_message = (m_mavlink_message chan)
              \<lparr>len := l, seq := s, sysid := sy, compid := co, msgid := mi,
               mavlink_message_t.ck_a := checksum_c0 ?crc5,
               mavlink_message_t.ck_b := checksum_c1 ?crc5\<rparr>\<rparr>"
  let ?st = "st\<lparr>current_seq := current_seq (m_mavlink_status chan) + 1,
               packet_rx_success_count := packet_rx_success_count ?init,
               packet_rx_drop_count := packet_rx_drop_count ?init\<rparr>"
  have cur: "current_seq ?init = current_seq (m_mavlink_status chan)"
    by (simp add: mavlink_parse_state_initialize_def)
  have header: "mavlink_parse_stream env (MAVLINK_STX env # l # s # sy # co # mi # p @ rest)
                  chan msg st = mavlink_parse_stream env (p @ rest) ?chan msg ?st"
    using wait
  proof
    assume u: "parse_state (m_mavlink_status chan) = MAVLINK_PARSE_STATE_UNINIT"
    show ?thesis
      using stream_header_uninit [OF u, of env l s sy co mi "p @ rest" msg st]
        initialize_uninit [OF u]
      by simp
  next
    assume i: "parse_state (m_mavlink_status chan) = MAVLINK_PARSE_STATE_IDLE"
    show ?thesis
      using stream_header_idle [OF i, of env l s sy co mi "p @ rest" msg st]
        initialize_idle [OF i]
      by simp
  qed
  show ?thesis
  proof (cases "l = 0")
    case True
    with lp have "p = []"
      by simp
    with True header show ?thesis
      by (cases "m_mavlink_message chan") simp
  next
    case False
    with lp have ne: "p \<noteq> []"
      by (auto simp: unat_eq_0)
    have a: "parse_state (m_mavlink_status ?chan) = MAVLINK_PARSE_STATE_GOT_MSGID"
      using False by simp
    have b: "unat (packet_idx (m_mavlink_status ?chan)) + length p =
             unat (len (m_mavlink_message ?chan))"
      using lp by simp
    have d: "unat (len (m_mavlink_message ?chan)) \<le> length (payload (m_mavlink_message ?chan))"
      using room by simp
    note body = stream_payload [OF a ne b d, of env rest msg ?st]
    show ?thesis
      unfolding header body using False cur
      by (cases "m_mavlink_status chan"; cases "m_mavlink_message chan")
        (simp add: mavlink_parse_state_initialize_def)
  qed
qed


lemma stream_trailer_accept:
  assumes "parse_state (m_mavlink_status chan) = MAVLINK_PARSE_STATE_GOT_PAYLOAD"
  shows "mavlink_parse_stream env
           (mavlink_message_t.ck_a (m_mavlink_message chan) #
            mavlink_message_t.ck_b (m_mavlink_message chan) # rest) chan msg st =
         (case mavlink_parse_stream env rest
            \<lparr>m_mavlink_status =
               (m_mavlink_status chan)
                 \<lparr>msg_received := 1, parse_state := MAVLINK_PARSE_STATE_IDLE,
                  packet_rx_drop_count :=
                    (if packet_rx_success_count (m_mavlink_status chan) = 0 then 0
                     else packet_rx_drop_count (m_mavlink_status chan) +
                          ucast (seq (m_mavlink_message chan) -
                                 current_seq (m_mavlink_status chan))),
                  current_seq := seq (m_mavlink_message chan),
                  packet_rx_success_count :=
                    packet_rx_success_count (m_mavlink_status chan) + 1\<rparr>,
             m_mavlink_message = m_mavlink_message chan\<rparr>
            (m_mavlink_message chan)
            (st\<lparr>current_seq := seq (m_mavlink_message chan) + 1,
                packet_rx_success_count :=
                  packet_rx_success_count (m_mavlink_status chan) + 1,
                packet_rx_drop_count :=
                  (if packet_rx_success_count (m_mavlink_status chan) = 0 then 0
                   else packet_rx_drop_count (m_mavlink_status chan) +
                        ucast (seq (m_mavlink_message chan) -
                               current_seq (m_mavlink_status chan)))\<rparr>) of
            Inl e \<Rightarrow> Inl e
          | Inr (msgs, fin) \<Rightarrow> Inr (m_mavlink_message chan # msgs, fin))"
  using assms
  by (cases "m_mavlink_status chan")
    (simp add: parse_char_defs parse_state_defs received_closed split: sum.splits prod.splits)

lemma stream_trailer_reject_low:
  assumes "parse_state (m_mavlink_status chan) = MAVLINK_PARSE_STATE_GOT_PAYLOAD"
    and "t1 \<noteq> mavlink_message_t.ck_a (m_mavlink_message chan)"
  shows "mavlink_parse_stream env (t1 # rest) chan msg st =
         mavlink_parse_stream env rest
           \<lparr>m_mavlink_status =
              (m_mavlink_status chan)
                \<lparr>msg_received := 0, parse_state := MAVLINK_PARSE_STATE_IDLE,
                 parse_error := parse_error (m_mavlink_status chan) + 1\<rparr>,
            m_mavlink_message = m_mavlink_message chan\<rparr>
           msg
           (st\<lparr>current_seq := current_seq (m_mavlink_status chan) + 1,
               packet_rx_success_count := packet_rx_success_count (m_mavlink_status chan),
               packet_rx_drop_count := packet_rx_drop_count (m_mavlink_status chan)\<rparr>)"
  using assms
  by (cases "m_mavlink_status chan") (simp add: parse_char_defs parse_state_defs)

lemma stream_trailer_reject_high:
  assumes "parse_state (m_mavlink_status chan) = MAVLINK_PARSE_STATE_GOT_PAYLOAD"
    and "t2 \<noteq> mavlink_message_t.ck_b (m_mavlink_message chan)"
  shows "mavlink_parse_stream env
           (mavlink_message_t.ck_a (m_mavlink_message chan) # t2 # rest) chan msg st =
         mavlink_parse_stream env rest
           \<lparr>m_mavlink_status =
              (m_mavlink_status chan)
                \<lparr>msg_received := 0, parse_state := MAVLINK_PARSE_STATE_IDLE,
                 parse_error := parse_error (m_mavlink_status chan) + 1\<rparr>,
            m_mavlink_message = m_mavlink_message chan\<rparr>
           msg
           (st\<lparr>current_seq := current_seq (m_mavlink_status chan) + 1,
               packet_rx_success_count := packet_rx_success_count (m_mavlink_status chan),
               packet_rx_drop_count := packet_rx_drop_count (m_mavlink_status chan)\<rparr>)"
  using assms
  by (cases "m_mavlink_status chan") (simp add: parse_char_defs parse_state_defs)

lemma stream_idle_skip:
  assumes "parse_state (m_mavlink_status chan) = MAVLINK_PARSE_STATE_IDLE"
    and "c \<noteq> MAVLINK_STX env"
  shows "mavlink_parse_stream env (c # rest) chan msg st =
         mavlink_parse_stream env rest
           \<lparr>m_mavlink_status = (m_mavlink_status chan)\<lparr>msg_received := 0\<rparr>,
            m_mavlink_message = m_mavlink_message chan\<rparr>
           msg
           (st\<lparr>current_seq := current_seq (m_mavlink_status chan) + 1,
               packet_rx_success_count := packet_rx_success_count (m_mavlink_status chan),
               packet_rx_drop_count := packet_rx_drop_count (m_mavlink_status chan)\<rparr>)"
  using assms
  by (cases "m_mavlink_status chan") (simp add: parse_char_defs parse_state_defs)

text \<open>
  A whole frame with the right trailer, met by a waiting channel, is decoded at its last
  byte: header fields and payload as sent, the payload's tail as the channel had it.
\<close>

lemma stream_frame_accept:
  assumes wait: "parse_state (m_mavlink_status chan) = MAVLINK_PARSE_STATE_UNINIT \<or>
                 parse_state (m_mavlink_status chan) = MAVLINK_PARSE_STATE_IDLE"
    and lp: "length p = unat l"
    and room: "unat l \<le> length (payload (m_mavlink_message chan))"
    and a: "a = checksum_c0 (fold (crcAccumulate env) (l # s # sy # co # mi # p) (crcInit env))"
    and b: "b = checksum_c1 (fold (crcAccumulate env) (l # s # sy # co # mi # p) (crcInit env))"
    and decoded: "decoded = (m_mavlink_message chan)
              \<lparr>len := l, seq := s, sysid := sy, compid := co, msgid := mi,
               payload := p @ drop (length p) (payload (m_mavlink_message chan)),
               mavlink_message_t.ck_a := a, mavlink_message_t.ck_b := b\<rparr>"
    and init: "init = mavlink_parse_state_initialize (m_mavlink_status chan)"
    and drops: "drops = (if packet_rx_success_count init = 0 then 0
                         else packet_rx_drop_count init + ucast (s - current_seq init))"
  shows "mavlink_parse_stream env
           (MAVLINK_STX env # l # s # sy # co # mi # p @ a # b # rest) chan msg st =
         (case mavlink_parse_stream env rest
            \<lparr>m_mavlink_status =
               init\<lparr>msg_received := 1, packet_idx := l,
                    parse_state := MAVLINK_PARSE_STATE_IDLE,
                    packet_rx_drop_count := drops,
                    current_seq := s,
                    packet_rx_success_count := packet_rx_success_count init + 1\<rparr>,
             m_mavlink_message = decoded\<rparr>
            decoded
            (st\<lparr>current_seq := s + 1,
                packet_rx_success_count := packet_rx_success_count init + 1,
                packet_rx_drop_count := drops\<rparr>) of
            Inl e \<Rightarrow> Inl e
          | Inr (msgs, fin) \<Rightarrow> Inr (decoded # msgs, fin))"
proof -
  let ?chan = "\<lparr>m_mavlink_status = init
              \<lparr>msg_received := 0, packet_idx := l,
               parse_state := MAVLINK_PARSE_STATE_GOT_PAYLOAD\<rparr>,
            m_mavlink_message = decoded\<rparr>"
  let ?st = "st\<lparr>current_seq := current_seq (m_mavlink_status chan) + 1,
               packet_rx_success_count := packet_rx_success_count init,
               packet_rx_drop_count := packet_rx_drop_count init\<rparr>"
  have pre: "mavlink_parse_stream env
               (MAVLINK_STX env # l # s # sy # co # mi # p @ a # b # rest) chan msg st =
             mavlink_parse_stream env (a # b # rest) ?chan msg ?st"
    using stream_frame_prefix [OF wait lp room, of env s sy co mi "a # b # rest" msg st]
    by (simp add: a b decoded init)
  have gp: "parse_state (m_mavlink_status ?chan) = MAVLINK_PARSE_STATE_GOT_PAYLOAD"
    by simp
  have ab: "a = mavlink_message_t.ck_a (m_mavlink_message ?chan)"
      "b = mavlink_message_t.ck_b (m_mavlink_message ?chan)"
    by (simp_all add: decoded)
  have s: "seq decoded = s"
    by (simp add: decoded)
  show ?thesis
    unfolding pre
    apply (subst ab(1), subst ab(2))
    apply (subst stream_trailer_accept [OF gp])
    apply (cases init)
    apply (simp add: s drops split: sum.splits prod.splits)
    done
qed


subsection \<open>Finalizing, serializing and parsing back\<close>

lemma take_header:
  "take (n + 5) (a # b # c # d # e # xs) = a # b # c # d # e # take n xs"
  by (simp add: eval_nat_numeral)

lemma finalize_message_closed:
  assumes len_ok: "unat length_arg \<le> MAVLINK_MAX_PAYLOAD_LEN"
    and draft_ok: "mavlink_message_ok draft"
    and crc: "crc = fold (crcAccumulate env)
                (ucast length_arg # seq_static # system_id # component_id # msgid draft #
                 take (unat length_arg) (payload draft)) (crcInit env)"
  shows "finalize_message env seq_static draft system_id component_id length_arg =
           Inr (draft\<lparr>len := ucast length_arg, seq := seq_static, sysid := system_id,
                      compid := component_id,
                      mavlink_message_t.ck_a := checksum_c0 crc,
                      mavlink_message_t.ck_b := checksum_c1 crc\<rparr>,
                seq_static + 1, length_arg + 7)"
  using len_ok draft_ok
  by (cases draft)
    (simp add: finalize_message_def crc_calculate_def mavlink_message_bytes_def Let_def
      mavlink_message_ok_def MAVLINK_MAX_PAYLOAD_LEN_def MAVLINK_CORE_HEADER_LEN_def
      MAVLINK_NUM_NON_STX_PAYLOAD_BYTES_def crc checksum_c0_def checksum_c1_def
      ucast_byte_mask take_header)

lemma update_at_seam:
  assumes "length xs = k" and "k < length buf"
  shows "(xs @ drop k buf)[k := a] = (xs @ [a]) @ drop (Suc k) buf"
proof -
  obtain y ys where d: "drop k buf = y # ys"
    using assms(2) by (cases "drop k buf") auto
  then have "ys = drop (Suc k) buf"
    by (metis drop_Suc tl_drop list.sel(3))
  with d assms(1) show ?thesis
    by (simp add: list_update_append)
qed

lemma message_to_send_buffer_closed:
  assumes fits: "unat (len msg) \<le> length (payload msg)"
    and room: "unat (len msg) + 8 \<le> length buffer"
  shows "message_to_send_buffer env buffer msg =
           Inr ((MAVLINK_STX env # len msg # seq msg # sysid msg # compid msg # msgid msg #
                 take (unat (len msg)) (payload msg) @
                 [mavlink_message_t.ck_a msg, mavlink_message_t.ck_b msg]) @
                drop (unat (len msg) + 8) buffer,
                ucast (len msg) + 8)"
proof -
  let ?n = "unat (len msg) + 5"
  let ?body = "len msg # seq msg # sysid msg # compid msg # msgid msg #
                 take (unat (len msg)) (payload msg)"
  have body: "take ?n (mavlink_message_bytes msg) = ?body"
    using fits by (simp add: mavlink_message_bytes_def take_header)
  have ne: "buffer \<noteq> []"
    using room by auto
  then obtain x xs where "buffer = x # xs"
    by (cases buffer) auto
  then have b1: "take (Suc 0) (buffer[0 := MAVLINK_STX env]) = [MAVLINK_STX env]"
    by simp
  have b2: "take 1 (buffer[0 := MAVLINK_STX env]) @ ?body @
              drop (1 + ?n) (buffer[0 := MAVLINK_STX env]) =
            (MAVLINK_STX env # ?body) @ drop (?n + 1) buffer"
    by (simp add: b1)
  have l1: "length (MAVLINK_STX env # ?body) = ?n + 1"
    using fits by simp
  have b3: "((MAVLINK_STX env # ?body) @ drop (?n + 1) buffer)[?n + 1 := a] =
            ((MAVLINK_STX env # ?body) @ [a]) @ drop (?n + 2) buffer" for a
    using update_at_seam [OF l1, of buffer a] room by simp
  have l2: "length ((MAVLINK_STX env # ?body) @ [a]) = ?n + 2" for a
    using fits by simp
  have b4: "(((MAVLINK_STX env # ?body) @ [a]) @ drop (?n + 2) buffer)[?n + 2 := b] =
            (((MAVLINK_STX env # ?body) @ [a]) @ [b]) @ drop (?n + 3) buffer" for a b
    using update_at_seam [OF l2 [of a], of buffer b] room by simp
  have "message_to_send_buffer env buffer msg =
          Inr ((((MAVLINK_STX env # ?body) @ [mavlink_message_t.ck_a msg]) @
                 [mavlink_message_t.ck_b msg]) @ drop (?n + 3) buffer,
               ucast (len msg) + 8)"
    unfolding message_to_send_buffer_def Let_def MAVLINK_CORE_HEADER_LEN_def
      MAVLINK_NUM_NON_PAYLOAD_BYTES_def body b2 b3 b4
    using fits room by (simp add: mavlink_message_bytes_def)
  then show ?thesis
    by (simp add: add.commute)
qed

lemma unat_send_length:
  fixes l :: "8 word"
  shows "unat (ucast l + 8 :: 16 word) = unat l + 8"
proof -
  have small: "unat l < 256"
    using unsigned_less [of l] by simp
  then have up: "unat (ucast l :: 16 word) = unat l"
    by (simp add: unsigned_ucast_eq take_bit_nat_eq_self)
  from small have "unat (ucast l :: 16 word) + unat (8 :: 16 word) < 2 ^ LENGTH(16)"
    by (simp add: up)
  then have "unat (ucast l + 8 :: 16 word) = unat (ucast l :: 16 word) + unat (8 :: 16 word)"
    by (simp only: unat_add_lem [THEN iffD1])
  then show ?thesis
    by (simp add: up)
qed


lemma ucast_length_arg:
  fixes length_arg :: "16 word"
  assumes "unat length_arg \<le> 255"
  shows "unat (ucast length_arg :: 8 word) = unat length_arg"
  using assms by (simp add: unsigned_ucast_eq take_bit_nat_eq_self)

lemma take_whole: "take (length xs) (xs @ ys) = xs"
  by simp

text \<open>
  C1. A draft whose payload array has the declared size is finalized with a length of at
  most 255, written to a send buffer that has room for the frame, and the bytes written
  are fed one by one to a fresh channel. Both steps succeed, and the parser hands out
  exactly one message, at the last byte: its length, system id, component id, message id
  and the first \<open>length\<close> payload bytes are those of the draft, and its sequence number
  and checksum bytes are those the finalizer stamped.
\<close>

theorem finalize_serialize_parse_round_trip:
  assumes len_ok: "unat length_arg \<le> MAVLINK_MAX_PAYLOAD_LEN"
    and draft_ok: "mavlink_message_ok draft"
    and room: "unat length_arg + MAVLINK_NUM_NON_PAYLOAD_BYTES \<le> length buffer"
  shows "\<exists>msg seq_next sent out n decoded chan st.
           finalize_message env seq_static draft system_id component_id length_arg =
             Inr (msg, seq_next, sent) \<and>
           message_to_send_buffer env buffer msg = Inr (out, n) \<and>
           mavlink_parse_stream env (take (unat n) out) mavlink_channel_fresh
             r_message r_mavlink_status = Inr ([decoded], chan, decoded, st) \<and>
           unat (len decoded) = unat length_arg \<and>
           sysid decoded = system_id \<and>
           compid decoded = component_id \<and>
           msgid decoded = msgid draft \<and>
           take (unat length_arg) (payload decoded) = take (unat length_arg) (payload draft) \<and>
           seq decoded = seq msg \<and>
           mavlink_message_t.ck_a decoded = mavlink_message_t.ck_a msg \<and>
           mavlink_message_t.ck_b decoded = mavlink_message_t.ck_b msg"
proof -
  let ?l = "ucast length_arg :: 8 word"
  let ?p = "take (unat length_arg) (payload draft)"
  let ?crc = "fold (crcAccumulate env)
                (?l # seq_static # system_id # component_id # msgid draft # ?p) (crcInit env)"
  let ?msg = "draft\<lparr>len := ?l, seq := seq_static, sysid := system_id,
                      compid := component_id,
                      mavlink_message_t.ck_a := checksum_c0 ?crc,
                      mavlink_message_t.ck_b := checksum_c1 ?crc\<rparr>"
  let ?frame = "MAVLINK_STX env # ?l # seq_static # system_id # component_id # msgid draft #
                 ?p @ [checksum_c0 ?crc, checksum_c1 ?crc]"
  have le: "unat length_arg \<le> 255"
    using len_ok by (simp add: MAVLINK_MAX_PAYLOAD_LEN_def)
  have ul: "unat ?l = unat length_arg"
    using le by (rule ucast_length_arg)
  have size: "length (payload draft) = 255"
    using draft_ok by (simp add: mavlink_message_ok_def MAVLINK_MAX_PAYLOAD_LEN_def)
  have lp: "length ?p = unat ?l"
    using le size ul by simp
  have fin: "finalize_message env seq_static draft system_id component_id length_arg =
               Inr (?msg, seq_static + 1, length_arg + 7)"
    using finalize_message_closed [OF len_ok draft_ok refl] .
  have fits: "unat (len ?msg) \<le> length (payload ?msg)"
    using le size ul by simp
  have room': "unat (len ?msg) + 8 \<le> length buffer"
    using room ul by (simp add: MAVLINK_NUM_NON_PAYLOAD_BYTES_def)
  have ser: "message_to_send_buffer env buffer ?msg =
               Inr (?frame @ drop (unat (len ?msg) + 8) buffer, ucast (len ?msg) + 8)"
    using message_to_send_buffer_closed [OF fits room', of env] ul by simp
  have flen: "length ?frame = unat (len ?msg) + 8"
    using lp ul by simp
  have "take (length ?frame) (?frame @ drop (unat (len ?msg) + 8) buffer) = ?frame"
    by (rule take_whole)
  then have sent: "take (unat (ucast (len ?msg) + 8 :: 16 word))
                (?frame @ drop (unat (len ?msg) + 8) buffer) = ?frame"
    by (simp only: unat_send_length flen)
  let ?decoded = "(m_mavlink_message mavlink_channel_fresh)
              \<lparr>len := ?l, seq := seq_static, sysid := system_id, compid := component_id,
               msgid := msgid draft,
               payload := ?p @ drop (length ?p) (payload (m_mavlink_message mavlink_channel_fresh)),
               mavlink_message_t.ck_a := checksum_c0 ?crc,
               mavlink_message_t.ck_b := checksum_c1 ?crc\<rparr>"
  have wait: "parse_state (m_mavlink_status mavlink_channel_fresh) = MAVLINK_PARSE_STATE_UNINIT \<or>
              parse_state (m_mavlink_status mavlink_channel_fresh) = MAVLINK_PARSE_STATE_IDLE"
    by (simp add: zero_defs parse_state_defs)
  have room_rx: "unat ?l \<le> length (payload (m_mavlink_message mavlink_channel_fresh))"
    using le ul by (simp add: zero_defs MAVLINK_MAX_PAYLOAD_LEN_def)
  have "\<exists>chan st. mavlink_parse_stream env ?frame mavlink_channel_fresh
          r_message r_mavlink_status = Inr ([?decoded], chan, ?decoded, st)"
    using stream_frame_accept [where env = env and s = seq_static and sy = system_id and
        co = component_id and mi = "msgid draft" and rest = "[]" and msg = r_message and
        st = r_mavlink_status, OF wait lp room_rx refl refl refl refl refl]
    by simp
  then obtain chan st where parse:
    "mavlink_parse_stream env ?frame mavlink_channel_fresh r_message r_mavlink_status =
       Inr ([?decoded], chan, ?decoded, st)"
    by blast
  have fields: "unat (len ?decoded) = unat length_arg"
      "sysid ?decoded = system_id" "compid ?decoded = component_id"
      "msgid ?decoded = msgid draft"
      "take (unat length_arg) (payload ?decoded) = take (unat length_arg) (payload draft)"
      "seq ?decoded = seq ?msg"
      "mavlink_message_t.ck_a ?decoded = mavlink_message_t.ck_a ?msg"
      "mavlink_message_t.ck_b ?decoded = mavlink_message_t.ck_b ?msg"
    using le size ul by simp_all
  have parse': "mavlink_parse_stream env
                  (take (unat (ucast (len ?msg) + 8 :: 16 word))
                     (?frame @ drop (unat (len ?msg) + 8) buffer))
                  mavlink_channel_fresh r_message r_mavlink_status =
                Inr ([?decoded], chan, ?decoded, st)"
    by (simp only: sent parse)
  from fin ser parse' fields show ?thesis
    by blast
qed


theorem finalize_serialize_parse_round_trip_witness:
  "\<exists>msg seq_next sent out n decoded chan st.
     finalize_message mavlink_env_x25 0
       (mavlink_message_zero\<lparr>payload := [1, 2, 3, 4] @ replicate 251 0\<rparr>) 1 1 4 =
       Inr (msg, seq_next, sent) \<and>
     message_to_send_buffer mavlink_env_x25 (replicate 12 0) msg = Inr (out, n) \<and>
     mavlink_parse_stream mavlink_env_x25 (take (unat n) out) mavlink_channel_fresh
       mavlink_message_zero mavlink_status_zero = Inr ([decoded], chan, decoded, st) \<and>
     unat (len decoded) = 4 \<and>
     sysid decoded = 1 \<and>
     compid decoded = 1 \<and>
     msgid decoded = 0 \<and>
     take 4 (payload decoded) = [1, 2, 3, 4] \<and>
     seq decoded = seq msg \<and>
     mavlink_message_t.ck_a decoded = mavlink_message_t.ck_a msg \<and>
     mavlink_message_t.ck_b decoded = mavlink_message_t.ck_b msg"
  using finalize_serialize_parse_round_trip [where length_arg = 4 and
      draft = "mavlink_message_zero\<lparr>payload := [1, 2, 3, 4] @ replicate 251 0\<rparr>" and
      buffer = "replicate 12 0" and env = mavlink_env_x25 and seq_static = 0 and
      system_id = 1 and component_id = 1 and r_message = mavlink_message_zero and
      r_mavlink_status = mavlink_status_zero]
  by (simp add: mavlink_message_ok_def MAVLINK_MAX_PAYLOAD_LEN_def
      MAVLINK_NUM_NON_PAYLOAD_BYTES_def mavlink_message_zero_def)

subsection \<open>The payload cursor\<close>

lemma cursor_ok_fresh: "mavlink_cursor_ok mavlink_channel_fresh"
  by (simp add: mavlink_cursor_ok_def zero_defs mavlink_message_ok_def parse_state_defs)

lemmas cursor_defs =
  mavlink_cursor_ok_def mavlink_message_ok_def MAVLINK_MAX_PAYLOAD_LEN_def

lemma cursor_ok_initialize:
  assumes "mavlink_cursor_ok \<lparr>m_mavlink_status = status, m_mavlink_message = rxmsg\<rparr>"
  shows "mavlink_cursor_ok
           \<lparr>m_mavlink_status = (mavlink_parse_state_initialize status)\<lparr>msg_received := 0\<rparr>,
            m_mavlink_message = rxmsg\<rparr>"
  using assms
  by (simp add: cursor_defs mavlink_parse_state_initialize_def Let_def parse_state_defs)

lemma initialize_range:
  "0 \<le> parse_state ((mavlink_parse_state_initialize status)\<lparr>msg_received := 0\<rparr>) \<and>
   parse_state ((mavlink_parse_state_initialize status)\<lparr>msg_received := 0\<rparr>) \<le> 9"
  by (simp add: mavlink_parse_state_initialize_def parse_state_defs)

lemma cursor_ok_switch_at:
  assumes "mavlink_cursor_ok \<lparr>m_mavlink_status = status, m_mavlink_message = rxmsg\<rparr>"
    and "parse_state status = k" and "k \<noteq> 7"
    and "k = 0 \<or> k = 1 \<or> k = 2 \<or> k = 3 \<or> k = 4 \<or> k = 5 \<or> k = 6 \<or> k = 8 \<or> k = 9"
  shows "\<exists>status' rxmsg' msg'.
           mavlink_parse_char_switch env c status rxmsg msg = Inr (status', rxmsg', msg') \<and>
           mavlink_cursor_ok \<lparr>m_mavlink_status = status', m_mavlink_message = rxmsg'\<rparr>"
  using assms(4,1,2)
  by (elim disjE)
    (simp_all add: mavlink_parse_char_switch_def parse_state_defs cursor_defs Let_def
      mavlink_update_checksum_def mavlink_start_checksum_def unat_gt_0)

lemma cursor_ok_switch_payload:
  assumes ok: "mavlink_cursor_ok \<lparr>m_mavlink_status = status, m_mavlink_message = rxmsg\<rparr>"
    and ps: "parse_state status = 7"
  shows "\<exists>status' rxmsg' msg'.
           mavlink_parse_char_switch env c status rxmsg msg = Inr (status', rxmsg', msg') \<and>
           mavlink_cursor_ok \<lparr>m_mavlink_status = status', m_mavlink_message = rxmsg'\<rparr>"
proof -
  let ?i = "packet_idx status"
  let ?l = "len rxmsg"
  have lt: "unat ?i < unat ?l"
    using ok ps by (simp add: cursor_defs Let_def parse_state_defs)
  have size: "length (payload rxmsg) = 255"
    using ok by (simp add: cursor_defs Let_def)
  have "unat ?l < 256"
    using unsigned_less [of ?l] by simp
  with lt size have in_range: "unat ?i < length (payload rxmsg)"
    by simp
  note succ = unat_succ_below [OF lt]
  have le: "unat (?i + 1) \<le> unat ?l"
    using succ(1) lt by simp
  have less: "?i + 1 \<noteq> ?l \<Longrightarrow> unat (?i + 1) < unat ?l"
    using succ lt by simp
  show ?thesis
    using ps in_range size le less
    by (simp add: mavlink_parse_char_switch_def parse_state_defs cursor_defs Let_def
        mavlink_update_checksum_def)
qed

lemma cursor_ok_switch:
  assumes ok: "mavlink_cursor_ok \<lparr>m_mavlink_status = status, m_mavlink_message = rxmsg\<rparr>"
    and range: "0 \<le> parse_state status \<and> parse_state status \<le> 9"
  shows "\<exists>status' rxmsg' msg'.
           mavlink_parse_char_switch env c status rxmsg msg = Inr (status', rxmsg', msg') \<and>
           mavlink_cursor_ok \<lparr>m_mavlink_status = status', m_mavlink_message = rxmsg'\<rparr>"
proof (cases "parse_state status = 7")
  case True
  with ok show ?thesis
    by (rule cursor_ok_switch_payload)
next
  case False
  moreover from False range
  have "parse_state status = 0 \<or> parse_state status = 1 \<or> parse_state status = 2 \<or>
        parse_state status = 3 \<or> parse_state status = 4 \<or> parse_state status = 5 \<or>
        parse_state status = 6 \<or> parse_state status = 8 \<or> parse_state status = 9"
    by arith
  ultimately show ?thesis
    using cursor_ok_switch_at [OF ok refl] by blast
qed

lemma cursor_ok_received:
  "mavlink_cursor_ok \<lparr>m_mavlink_status = status, m_mavlink_message = rxmsg\<rparr> \<Longrightarrow>
   mavlink_cursor_ok
     \<lparr>m_mavlink_status = mavlink_parse_char_received status rxmsg, m_mavlink_message = rxmsg\<rparr>"
  by (simp add: cursor_defs received_closed Let_def)

lemma cursor_ok_step:
  assumes ok: "mavlink_cursor_ok chan"
  shows "\<exists>r. mavlink_parse_char env chan c msg st = Inr r \<and> mavlink_cursor_ok (res_channel r)"
proof -
  let ?status = "(mavlink_parse_state_initialize (m_mavlink_status chan))\<lparr>msg_received := 0\<rparr>"
  have "mavlink_cursor_ok
          \<lparr>m_mavlink_status = m_mavlink_status chan, m_mavlink_message = m_mavlink_message chan\<rparr>"
    using ok by (cases chan) simp
  then have "mavlink_cursor_ok
          \<lparr>m_mavlink_status = ?status, m_mavlink_message = m_mavlink_message chan\<rparr>"
    by (rule cursor_ok_initialize)
  from cursor_ok_switch [OF this initialize_range, of env c msg]
  obtain status' rxmsg' msg' where
    sw: "mavlink_parse_char_switch env c ?status (m_mavlink_message chan) msg =
           Inr (status', rxmsg', msg')"
    and ok': "mavlink_cursor_ok \<lparr>m_mavlink_status = status', m_mavlink_message = rxmsg'\<rparr>"
    by blast
  show ?thesis
    using sw ok' cursor_ok_received [OF ok']
    by (simp add: mavlink_parse_char_def Let_def)
qed

lemma cursor_ok_stream:
  "mavlink_cursor_ok chan \<Longrightarrow>
   \<exists>msgs chan' msg' st'.
     mavlink_parse_stream env bytes chan msg st = Inr (msgs, chan', msg', st') \<and>
     mavlink_cursor_ok chan'"
proof (induction bytes arbitrary: chan msg st)
  case Nil
  then show ?case by simp
next
  case (Cons c bytes)
  from cursor_ok_step [OF Cons.prems, of env c msg st]
  obtain r where r: "mavlink_parse_char env chan c msg st = Inr r"
    and ok: "mavlink_cursor_ok (res_channel r)"
    by blast
  from Cons.IH [OF ok, of "res_message r" "res_status r"]
  obtain msgs chan' msg' st' where
    "mavlink_parse_stream env bytes (res_channel r) (res_message r) (res_status r) =
       Inr (msgs, chan', msg', st')" and "mavlink_cursor_ok chan'"
    by blast
  with r show ?case
    by simp
qed

text \<open>
  C9. Whatever bytes a fresh channel is fed, no call writes outside the payload array,
  and between calls the cursor \<^verbatim>\<open>packet_idx\<close> is at most the length byte of the message
  under construction, itself at most 255. In the payload-accumulation state \<^verbatim>\<open>GOT_MSGID\<close>,
  the only one whose next call stores to \<^verbatim>\<open>payload[packet_idx]\<close>, the cursor is strictly below
  that length, hence at most 254 and inside the array.
\<close>

theorem payload_cursor_in_bounds:
  "\<exists>msgs chan msg' st'.
     mavlink_parse_stream env bytes mavlink_channel_fresh r_message r_mavlink_status =
       Inr (msgs, chan, msg', st') \<and>
     unat (packet_idx (m_mavlink_status chan)) \<le> unat (len (m_mavlink_message chan)) \<and>
     unat (len (m_mavlink_message chan)) \<le> 255 \<and>
     length (payload (m_mavlink_message chan)) = MAVLINK_MAX_PAYLOAD_LEN \<and>
     (parse_state (m_mavlink_status chan) = MAVLINK_PARSE_STATE_GOT_MSGID \<longrightarrow>
        unat (packet_idx (m_mavlink_status chan)) < unat (len (m_mavlink_message chan)) \<and>
        unat (packet_idx (m_mavlink_status chan)) \<le> 254 \<and>
        unat (packet_idx (m_mavlink_status chan)) < length (payload (m_mavlink_message chan)))"
proof -
  from cursor_ok_stream [OF cursor_ok_fresh, of env bytes r_message r_mavlink_status]
  obtain msgs chan msg' st' where
    run: "mavlink_parse_stream env bytes mavlink_channel_fresh r_message r_mavlink_status =
            Inr (msgs, chan, msg', st')"
    and ok: "mavlink_cursor_ok chan"
    by blast
  have "unat (len (m_mavlink_message chan)) < 256"
    using unsigned_less [of "len (m_mavlink_message chan)"] by simp
  then have small: "unat (len (m_mavlink_message chan)) \<le> 255"
    by simp
  from ok small have
    "unat (packet_idx (m_mavlink_status chan)) \<le> unat (len (m_mavlink_message chan)) \<and>
     unat (len (m_mavlink_message chan)) \<le> 255 \<and>
     length (payload (m_mavlink_message chan)) = MAVLINK_MAX_PAYLOAD_LEN \<and>
     (parse_state (m_mavlink_status chan) = MAVLINK_PARSE_STATE_GOT_MSGID \<longrightarrow>
        unat (packet_idx (m_mavlink_status chan)) < unat (len (m_mavlink_message chan)) \<and>
        unat (packet_idx (m_mavlink_status chan)) \<le> 254 \<and>
        unat (packet_idx (m_mavlink_status chan)) < length (payload (m_mavlink_message chan)))"
    by (auto simp: mavlink_cursor_ok_def Let_def mavlink_message_ok_def
        MAVLINK_MAX_PAYLOAD_LEN_def)
  with run show ?thesis
    by blast
qed


theorem payload_cursor_in_bounds_witness:
  "\<exists>msgs chan msg' st'.
     mavlink_parse_stream mavlink_env_x25 [0x55, 2, 0, 0, 0, 0, 7] mavlink_channel_fresh
       mavlink_message_zero mavlink_status_zero = Inr (msgs, chan, msg', st') \<and>
     parse_state (m_mavlink_status chan) = MAVLINK_PARSE_STATE_GOT_MSGID \<and>
     packet_idx (m_mavlink_status chan) = 1 \<and>
     len (m_mavlink_message chan) = 2 \<and>
     unat (packet_idx (m_mavlink_status chan)) < unat (len (m_mavlink_message chan)) \<and>
     unat (packet_idx (m_mavlink_status chan)) \<le> 254 \<and>
     unat (packet_idx (m_mavlink_status chan)) < length (payload (m_mavlink_message chan))"
proof -
  have ev: "map_sum id
              (\<lambda>(msgs, chan, msg', st').
                 (parse_state (m_mavlink_status chan), packet_idx (m_mavlink_status chan),
                  len (m_mavlink_message chan)))
              (mavlink_parse_stream mavlink_env_x25 [0x55, 2, 0, 0, 0, 0, 7]
                 mavlink_channel_fresh mavlink_message_zero mavlink_status_zero) =
            Inr (7, 1, 2)"
    by code_simp
  from payload_cursor_in_bounds [of mavlink_env_x25 "[0x55, 2, 0, 0, 0, 0, 7]"
      mavlink_message_zero mavlink_status_zero]
  obtain msgs chan msg' st' where
    run: "mavlink_parse_stream mavlink_env_x25 [0x55, 2, 0, 0, 0, 0, 7] mavlink_channel_fresh
            mavlink_message_zero mavlink_status_zero = Inr (msgs, chan, msg', st')"
    and bound: "parse_state (m_mavlink_status chan) = MAVLINK_PARSE_STATE_GOT_MSGID \<longrightarrow>
        unat (packet_idx (m_mavlink_status chan)) < unat (len (m_mavlink_message chan)) \<and>
        unat (packet_idx (m_mavlink_status chan)) \<le> 254 \<and>
        unat (packet_idx (m_mavlink_status chan)) < length (payload (m_mavlink_message chan))"
    by blast
  from ev run have at: "parse_state (m_mavlink_status chan) = MAVLINK_PARSE_STATE_GOT_MSGID"
      "packet_idx (m_mavlink_status chan) = 1" "len (m_mavlink_message chan) = 2"
    by (simp_all add: parse_state_defs)
  with run bound show ?thesis
    by blast
qed

subsection \<open>The channel initializer\<close>

text \<open>
  C8, as stated, fails: \<^verbatim>\<open>UNINIT\<close> is a value of the enumeration, and the guard
  \<^verbatim>\<open>parse_state <= MAVLINK_PARSE_STATE_UNINIT\<close> resets a status stored in that state.
\<close>

theorem initialize_resets_uninit:
  "MAVLINK_PARSE_STATE_UNINIT \<le> parse_state (mavlink_status_zero\<lparr>parse_error := 3\<rparr>) \<and>
   parse_state (mavlink_status_zero\<lparr>parse_error := 3\<rparr>) \<le> MAVLINK_PARSE_STATE_GOT_CRC1 \<and>
   mavlink_parse_state_initialize (mavlink_status_zero\<lparr>parse_error := 3\<rparr>) \<noteq>
     mavlink_status_zero\<lparr>parse_error := 3\<rparr> \<and>
   parse_error (mavlink_parse_state_initialize (mavlink_status_zero\<lparr>parse_error := 3\<rparr>)) = 0"
  by (simp add: mavlink_parse_state_initialize_def mavlink_status_zero_def parse_state_defs)

text \<open>
  C8, amended. A status whose stored state is one of \<^verbatim>\<open>IDLE\<close> to \<^verbatim>\<open>GOT_CRC1\<close> is left
  unchanged in every field. A status whose stored state is \<^verbatim>\<open>UNINIT\<close> or outside the
  enumerated range has its checksum bytes, flags, counters and cursor set to 0 and its
  state set to \<^verbatim>\<open>UNINIT\<close>; only \<^verbatim>\<open>current_seq\<close> is kept.
\<close>

theorem initialize_keeps_started_channel:
  "(MAVLINK_PARSE_STATE_IDLE \<le> parse_state status \<and>
    parse_state status \<le> MAVLINK_PARSE_STATE_GOT_CRC1 \<longrightarrow>
      mavlink_parse_state_initialize status = status) \<and>
   (parse_state status \<le> MAVLINK_PARSE_STATE_UNINIT \<or>
    MAVLINK_PARSE_STATE_GOT_CRC1 < parse_state status \<longrightarrow>
      mavlink_parse_state_initialize status =
        \<lparr>mavlink_status_t.ck_a = 0, mavlink_status_t.ck_b = 0, msg_received = 0,
         buffer_overrun = 0, parse_error = 0, parse_state = MAVLINK_PARSE_STATE_UNINIT,
         packet_idx = 0, current_seq = current_seq status, packet_rx_success_count = 0,
         packet_rx_drop_count = 0\<rparr>)"
  by (cases status) (simp add: mavlink_parse_state_initialize_def parse_state_defs)

theorem initialize_keeps_started_channel_witness:
  "mavlink_parse_state_initialize
     (mavlink_status_zero\<lparr>parse_state := MAVLINK_PARSE_STATE_GOT_SEQ, parse_error := 3,
                          packet_rx_success_count := 8\<rparr>) =
     mavlink_status_zero\<lparr>parse_state := MAVLINK_PARSE_STATE_GOT_SEQ, parse_error := 3,
                          packet_rx_success_count := 8\<rparr> \<and>
   mavlink_parse_state_initialize
     (mavlink_status_zero\<lparr>parse_state := 12, parse_error := 3, current_seq := 6\<rparr>) =
     mavlink_status_zero\<lparr>current_seq := 6\<rparr>"
  using 
    initialize_keeps_started_channel [of
      "mavlink_status_zero\<lparr>parse_state := MAVLINK_PARSE_STATE_GOT_SEQ, parse_error := 3,
                           packet_rx_success_count := 8\<rparr>"]
    initialize_keeps_started_channel [of
      "mavlink_status_zero\<lparr>parse_state := 12, parse_error := 3, current_seq := 6\<rparr>"]
  by (simp add: mavlink_status_zero_def parse_state_defs)

subsection \<open>Empty payloads\<close>

text \<open>
  C7. A frame whose length byte is 0 is accepted, and the parser never enters the
  payload-accumulation state \<^verbatim>\<open>GOT_MSGID\<close> for it. First, for every channel in
  \<^verbatim>\<open>GOT_COMPID\<close> with a stored length of 0: the message-kind byte \<open>c\<close> takes it straight to
  \<^verbatim>\<open>GOT_PAYLOAD\<close>; the trailer that matches is the low and the high byte of the running
  checksum with \<open>c\<close> folded in, and fed next it takes the channel through \<^verbatim>\<open>GOT_CRC1\<close> to
  a call that returns 1 and hands out a message of length 0 with that message kind.
  Second, for every waiting channel and the whole frame: after the delimiter, the length
  byte 0 and three header bytes the channel is in \<^verbatim>\<open>GOT_COMPID\<close> with length 0, the
  message-kind byte takes it to \<^verbatim>\<open>GOT_PAYLOAD\<close>, and the frame closed by the two bytes of
  the checksum over its five header bytes is decoded as exactly one message of length 0
  with the header fields sent.
\<close>

theorem empty_payload_frame_accepted:
  "(parse_state (m_mavlink_status chan) = MAVLINK_PARSE_STATE_GOT_COMPID \<and>
    len (m_mavlink_message chan) = 0 \<longrightarrow>
      (\<exists>r1 r2 r3.
         mavlink_parse_char env chan c r_message r_mavlink_status = Inr r1 \<and>
         parse_state (m_mavlink_status (res_channel r1)) = MAVLINK_PARSE_STATE_GOT_PAYLOAD \<and>
         res_return r1 = 0 \<and>
         mavlink_parse_char env (res_channel r1)
           (checksum_c0 (crcAccumulate env c
              (checksum_s (mavlink_message_t.ck_a (m_mavlink_message chan))
                          (mavlink_message_t.ck_b (m_mavlink_message chan)))))
           (res_message r1) (res_status r1) = Inr r2 \<and>
         parse_state (m_mavlink_status (res_channel r2)) = MAVLINK_PARSE_STATE_GOT_CRC1 \<and>
         res_return r2 = 0 \<and>
         mavlink_parse_char env (res_channel r2)
           (checksum_c1 (crcAccumulate env c
              (checksum_s (mavlink_message_t.ck_a (m_mavlink_message chan))
                          (mavlink_message_t.ck_b (m_mavlink_message chan)))))
           (res_message r2) (res_status r2) = Inr r3 \<and>
         parse_state (m_mavlink_status (res_channel r3)) = MAVLINK_PARSE_STATE_IDLE \<and>
         res_return r3 = 1 \<and>
         len (res_message r3) = 0 \<and>
         msgid (res_message r3) = c)) \<and>
   (parse_state (m_mavlink_status chan) = MAVLINK_PARSE_STATE_UNINIT \<or>
    parse_state (m_mavlink_status chan) = MAVLINK_PARSE_STATE_IDLE \<longrightarrow>
      (\<exists>chan5 st5 r decoded chan' st'.
         mavlink_parse_stream env [MAVLINK_STX env, 0, s, sy, co] chan
           r_message r_mavlink_status = Inr ([], chan5, r_message, st5) \<and>
         parse_state (m_mavlink_status chan5) = MAVLINK_PARSE_STATE_GOT_COMPID \<and>
         len (m_mavlink_message chan5) = 0 \<and>
         mavlink_parse_char env chan5 c r_message st5 = Inr r \<and>
         parse_state (m_mavlink_status (res_channel r)) = MAVLINK_PARSE_STATE_GOT_PAYLOAD \<and>
         res_return r = 0 \<and>
         mavlink_parse_stream env
           [MAVLINK_STX env, 0, s, sy, co, c,
            checksum_c0 (fold (crcAccumulate env) [0, s, sy, co, c] (crcInit env)),
            checksum_c1 (fold (crcAccumulate env) [0, s, sy, co, c] (crcInit env))]
           chan r_message r_mavlink_status = Inr ([decoded], chan', decoded, st') \<and>
         len decoded = 0 \<and> seq decoded = s \<and> sysid decoded = sy \<and>
         compid decoded = co \<and> msgid decoded = c \<and>
         mavlink_message_t.ck_a decoded =
           checksum_c0 (fold (crcAccumulate env) [0, s, sy, co, c] (crcInit env)) \<and>
         mavlink_message_t.ck_b decoded =
           checksum_c1 (fold (crcAccumulate env) [0, s, sy, co, c] (crcInit env))))"
proof (intro conjI impI)
  assume "parse_state (m_mavlink_status chan) = MAVLINK_PARSE_STATE_GOT_COMPID \<and>
          len (m_mavlink_message chan) = 0"
  then show "\<exists>r1 r2 r3.
         mavlink_parse_char env chan c r_message r_mavlink_status = Inr r1 \<and>
         parse_state (m_mavlink_status (res_channel r1)) = MAVLINK_PARSE_STATE_GOT_PAYLOAD \<and>
         res_return r1 = 0 \<and>
         mavlink_parse_char env (res_channel r1)
           (checksum_c0 (crcAccumulate env c
              (checksum_s (mavlink_message_t.ck_a (m_mavlink_message chan))
                          (mavlink_message_t.ck_b (m_mavlink_message chan)))))
           (res_message r1) (res_status r1) = Inr r2 \<and>
         parse_state (m_mavlink_status (res_channel r2)) = MAVLINK_PARSE_STATE_GOT_CRC1 \<and>
         res_return r2 = 0 \<and>
         mavlink_parse_char env (res_channel r2)
           (checksum_c1 (crcAccumulate env c
              (checksum_s (mavlink_message_t.ck_a (m_mavlink_message chan))
                          (mavlink_message_t.ck_b (m_mavlink_message chan)))))
           (res_message r2) (res_status r2) = Inr r3 \<and>
         parse_state (m_mavlink_status (res_channel r3)) = MAVLINK_PARSE_STATE_IDLE \<and>
         res_return r3 = 1 \<and>
         len (res_message r3) = 0 \<and>
         msgid (res_message r3) = c"
    by (cases "m_mavlink_status chan")
      (simp add: parse_char_defs parse_state_defs received_closed)
next
  assume wait: "parse_state (m_mavlink_status chan) = MAVLINK_PARSE_STATE_UNINIT \<or>
                parse_state (m_mavlink_status chan) = MAVLINK_PARSE_STATE_IDLE"
  let ?crc = "fold (crcAccumulate env) [0, s, sy, co, c] (crcInit env)"
  have five: "\<exists>chan5 st5 r.
         mavlink_parse_stream env [MAVLINK_STX env, 0, s, sy, co] chan
           r_message r_mavlink_status = Inr ([], chan5, r_message, st5) \<and>
         parse_state (m_mavlink_status chan5) = MAVLINK_PARSE_STATE_GOT_COMPID \<and>
         len (m_mavlink_message chan5) = 0 \<and>
         mavlink_parse_char env chan5 c r_message st5 = Inr r \<and>
         parse_state (m_mavlink_status (res_channel r)) = MAVLINK_PARSE_STATE_GOT_PAYLOAD \<and>
         res_return r = 0"
    using wait
  proof
    assume "parse_state (m_mavlink_status chan) = MAVLINK_PARSE_STATE_UNINIT"
    then show ?thesis
      by (cases "m_mavlink_status chan") (simp add: parse_char_defs parse_state_defs)
  next
    assume "parse_state (m_mavlink_status chan) = MAVLINK_PARSE_STATE_IDLE"
    then show ?thesis
      by (cases "m_mavlink_status chan") (simp add: parse_char_defs parse_state_defs)
  qed
  let ?decoded = "(m_mavlink_message chan)
              \<lparr>len := 0, seq := s, sysid := sy, compid := co, msgid := c,
               payload := [] @ drop (length ([] :: uint8_t list)) (payload (m_mavlink_message chan)),
               mavlink_message_t.ck_a := checksum_c0 ?crc,
               mavlink_message_t.ck_b := checksum_c1 ?crc\<rparr>"
  have lp: "length ([] :: uint8_t list) = unat (0 :: 8 word)"
    by simp
  have room: "unat (0 :: 8 word) \<le> length (payload (m_mavlink_message chan))"
    by simp
  have "\<exists>chan' st'. mavlink_parse_stream env
           [MAVLINK_STX env, 0, s, sy, co, c, checksum_c0 ?crc, checksum_c1 ?crc]
           chan r_message r_mavlink_status = Inr ([?decoded], chan', ?decoded, st')"
    using stream_frame_accept [where env = env and s = s and sy = sy and co = co and
        mi = c and rest = "[]" and msg = r_message and st = r_mavlink_status,
        OF wait lp room refl refl refl refl refl]
    by simp
  then obtain chan' st' where whole:
    "mavlink_parse_stream env
       [MAVLINK_STX env, 0, s, sy, co, c, checksum_c0 ?crc, checksum_c1 ?crc]
       chan r_message r_mavlink_status = Inr ([?decoded], chan', ?decoded, st')"
    by blast
  have fields: "len ?decoded = 0" "seq ?decoded = s" "sysid ?decoded = sy"
      "compid ?decoded = co" "msgid ?decoded = c"
      "mavlink_message_t.ck_a ?decoded = checksum_c0 ?crc"
      "mavlink_message_t.ck_b ?decoded = checksum_c1 ?crc"
    by simp_all
  from five obtain chan5 st5 r where
    "mavlink_parse_stream env [MAVLINK_STX env, 0, s, sy, co] chan
           r_message r_mavlink_status = Inr ([], chan5, r_message, st5)"
    "parse_state (m_mavlink_status chan5) = MAVLINK_PARSE_STATE_GOT_COMPID"
    "len (m_mavlink_message chan5) = 0"
    "mavlink_parse_char env chan5 c r_message st5 = Inr r"
    "parse_state (m_mavlink_status (res_channel r)) = MAVLINK_PARSE_STATE_GOT_PAYLOAD"
    "res_return r = 0"
    by blast
  with whole fields show "\<exists>chan5 st5 r decoded chan' st'.
         mavlink_parse_stream env [MAVLINK_STX env, 0, s, sy, co] chan
           r_message r_mavlink_status = Inr ([], chan5, r_message, st5) \<and>
         parse_state (m_mavlink_status chan5) = MAVLINK_PARSE_STATE_GOT_COMPID \<and>
         len (m_mavlink_message chan5) = 0 \<and>
         mavlink_parse_char env chan5 c r_message st5 = Inr r \<and>
         parse_state (m_mavlink_status (res_channel r)) = MAVLINK_PARSE_STATE_GOT_PAYLOAD \<and>
         res_return r = 0 \<and>
         mavlink_parse_stream env
           [MAVLINK_STX env, 0, s, sy, co, c, checksum_c0 ?crc, checksum_c1 ?crc]
           chan r_message r_mavlink_status = Inr ([decoded], chan', decoded, st') \<and>
         len decoded = 0 \<and> seq decoded = s \<and> sysid decoded = sy \<and>
         compid decoded = co \<and> msgid decoded = c \<and>
         mavlink_message_t.ck_a decoded = checksum_c0 ?crc \<and>
         mavlink_message_t.ck_b decoded = checksum_c1 ?crc"
    by blast
qed

theorem empty_payload_frame_accepted_witness:
  "mavlink_parse_stream mavlink_env_x25 [0x55, 0, 0, 0, 0] mavlink_channel_fresh
     mavlink_message_zero mavlink_status_zero =
     Inr ([],
          \<lparr>m_mavlink_status = mavlink_status_zero\<lparr>parse_state := MAVLINK_PARSE_STATE_GOT_COMPID\<rparr>,
           m_mavlink_message = mavlink_message_zero\<lparr>mavlink_message_t.ck_a := 0x21,
                                                    mavlink_message_t.ck_b := 0x03\<rparr>\<rparr>,
          mavlink_message_zero, mavlink_status_zero\<lparr>current_seq := 1\<rparr>) \<and>
   (\<exists>r1 r2 r3.
      mavlink_parse_char mavlink_env_x25
        \<lparr>m_mavlink_status = mavlink_status_zero\<lparr>parse_state := MAVLINK_PARSE_STATE_GOT_COMPID\<rparr>,
         m_mavlink_message = mavlink_message_zero\<lparr>mavlink_message_t.ck_a := 0x21,
                                                  mavlink_message_t.ck_b := 0x03\<rparr>\<rparr>
        9 mavlink_message_zero (mavlink_status_zero\<lparr>current_seq := 1\<rparr>) = Inr r1 \<and>
      parse_state (m_mavlink_status (res_channel r1)) = MAVLINK_PARSE_STATE_GOT_PAYLOAD \<and>
      res_return r1 = 0 \<and>
      mavlink_parse_char mavlink_env_x25 (res_channel r1) 0x49
        (res_message r1) (res_status r1) = Inr r2 \<and>
      parse_state (m_mavlink_status (res_channel r2)) = MAVLINK_PARSE_STATE_GOT_CRC1 \<and>
      res_return r2 = 0 \<and>
      mavlink_parse_char mavlink_env_x25 (res_channel r2) 0xAD
        (res_message r2) (res_status r2) = Inr r3 \<and>
      parse_state (m_mavlink_status (res_channel r3)) = MAVLINK_PARSE_STATE_IDLE \<and>
      res_return r3 = 1 \<and>
      len (res_message r3) = 0 \<and>
      msgid (res_message r3) = 9) \<and>
   (\<exists>decoded chan' st'.
      mavlink_parse_stream mavlink_env_x25 [0x55, 0, 0, 0, 0, 9, 0x49, 0xAD]
        mavlink_channel_fresh mavlink_message_zero mavlink_status_zero =
        Inr ([decoded], chan', decoded, st') \<and>
      len decoded = 0 \<and> seq decoded = 0 \<and> sysid decoded = 0 \<and>
      compid decoded = 0 \<and> msgid decoded = 9 \<and>
      mavlink_message_t.ck_a decoded = 0x49 \<and>
      mavlink_message_t.ck_b decoded = 0xAD)"
proof -
  let ?chan5 = "\<lparr>m_mavlink_status =
                   mavlink_status_zero\<lparr>parse_state := MAVLINK_PARSE_STATE_GOT_COMPID\<rparr>,
                 m_mavlink_message =
                   mavlink_message_zero\<lparr>mavlink_message_t.ck_a := 0x21,
                                         mavlink_message_t.ck_b := 0x03\<rparr>\<rparr>"
  let ?st5 = "mavlink_status_zero\<lparr>current_seq := 1\<rparr>"
  have reach: "mavlink_parse_stream mavlink_env_x25 [0x55, 0, 0, 0, 0] mavlink_channel_fresh
                 mavlink_message_zero mavlink_status_zero =
               Inr ([], ?chan5, mavlink_message_zero, ?st5)"
    unfolding MAVLINK_PARSE_STATE_GOT_COMPID_def by code_simp
  have step_trailer:
    "checksum_c0 (crcAccumulate mavlink_env_x25 9 (checksum_s 0x21 0x03)) = 0x49"
    "checksum_c1 (crcAccumulate mavlink_env_x25 9 (checksum_s 0x21 0x03)) = 0xAD"
    by code_simp+
  have frame_trailer:
    "checksum_c0 (fold (crcAccumulate mavlink_env_x25) [0, 0, 0, 0, 9]
                    (crcInit mavlink_env_x25)) = 0x49"
    "checksum_c1 (fold (crcAccumulate mavlink_env_x25) [0, 0, 0, 0, 9]
                    (crcInit mavlink_env_x25)) = 0xAD"
    by code_simp+
  have stx: "MAVLINK_STX mavlink_env_x25 = 0x55"
    by (simp add: mavlink_env_x25_def)
  have at5: "parse_state (m_mavlink_status ?chan5) = MAVLINK_PARSE_STATE_GOT_COMPID \<and>
             len (m_mavlink_message ?chan5) = 0"
    by (simp add: mavlink_message_zero_def)
  have wait: "parse_state (m_mavlink_status mavlink_channel_fresh) = MAVLINK_PARSE_STATE_UNINIT \<or>
              parse_state (m_mavlink_status mavlink_channel_fresh) = MAVLINK_PARSE_STATE_IDLE"
    by (simp add: zero_defs parse_state_defs)
  have steps: "\<exists>r1 r2 r3.
      mavlink_parse_char mavlink_env_x25 ?chan5 9 mavlink_message_zero ?st5 = Inr r1 \<and>
      parse_state (m_mavlink_status (res_channel r1)) = MAVLINK_PARSE_STATE_GOT_PAYLOAD \<and>
      res_return r1 = 0 \<and>
      mavlink_parse_char mavlink_env_x25 (res_channel r1) 0x49
        (res_message r1) (res_status r1) = Inr r2 \<and>
      parse_state (m_mavlink_status (res_channel r2)) = MAVLINK_PARSE_STATE_GOT_CRC1 \<and>
      res_return r2 = 0 \<and>
      mavlink_parse_char mavlink_env_x25 (res_channel r2) 0xAD
        (res_message r2) (res_status r2) = Inr r3 \<and>
      parse_state (m_mavlink_status (res_channel r3)) = MAVLINK_PARSE_STATE_IDLE \<and>
      res_return r3 = 1 \<and>
      len (res_message r3) = 0 \<and>
      msgid (res_message r3) = 9"
    using empty_payload_frame_accepted [where chan = ?chan5 and env = mavlink_env_x25 and
        c = 9 and r_message = mavlink_message_zero and r_mavlink_status = ?st5,
        THEN conjunct1, THEN mp, OF at5]
    by (simp add: step_trailer)
  have frame: "\<exists>decoded chan' st'.
      mavlink_parse_stream mavlink_env_x25 [0x55, 0, 0, 0, 0, 9, 0x49, 0xAD]
        mavlink_channel_fresh mavlink_message_zero mavlink_status_zero =
        Inr ([decoded], chan', decoded, st') \<and>
      len decoded = 0 \<and> seq decoded = 0 \<and> sysid decoded = 0 \<and>
      compid decoded = 0 \<and> msgid decoded = 9 \<and>
      mavlink_message_t.ck_a decoded = 0x49 \<and>
      mavlink_message_t.ck_b decoded = 0xAD"
    using empty_payload_frame_accepted [where chan = mavlink_channel_fresh and
        env = mavlink_env_x25 and c = 9 and s = 0 and sy = 0 and co = 0 and
        r_message = mavlink_message_zero and r_mavlink_status = mavlink_status_zero,
        THEN conjunct2, THEN mp, OF wait]
    unfolding frame_trailer stx
    by blast
  from reach steps frame show ?thesis
    by (intro conjI)
qed

subsection \<open>Loss accounting\<close>

text \<open>
  What an accepting call does to the drop counter, for every channel: the first acceptance
  sets it to 0; every later one adds the distance from the last accepted sequence number
  to the new one, modulo 256. The loop of lines 264--268 starts at the last accepted
  number, not at its successor, so in-order reception adds 1 each time.
\<close>

lemma accepted_drop_count:
  assumes "mavlink_parse_char env chan c r_message r_mavlink_status = Inr r"
    and "res_return r = 1"
  shows "packet_rx_drop_count (m_mavlink_status (res_channel r)) =
           (if packet_rx_success_count (m_mavlink_status chan) = 0 then 0
            else packet_rx_drop_count (m_mavlink_status chan) +
                 ucast (seq (res_message r) - current_seq (m_mavlink_status chan)))"
    and "current_seq (m_mavlink_status (res_channel r)) = seq (res_message r)"
    and "packet_rx_drop_count (res_status r) =
           packet_rx_drop_count (m_mavlink_status (res_channel r))"
  using assms
  by (auto simp: parse_char_defs received_closed split: if_splits)

text \<open>
  C3, evaluated. A fresh channel is fed three well-formed frames with empty payload and
  sequence numbers 5, 6 and 9 (delimiter \<open>0x55\<close>, X.25 checksum). All three are decoded,
  and the drop counter ends at 4: 0 after the first, 1 after the second, 4 after the third.
\<close>

theorem drop_count_after_5_6_9:
  "map_sum id
     (\<lambda>(msgs, chan, msg, st).
        (map seq msgs, packet_rx_drop_count (m_mavlink_status chan), packet_rx_drop_count st))
     (mavlink_parse_stream mavlink_env_x25
        ([0x55, 0, 5, 0, 0, 0, 0xDF, 0x5E] @ [0x55, 0, 6, 0, 0, 0, 0x12, 0x7B] @
         [0x55, 0, 9, 0, 0, 0, 0xEB, 0xC9])
        mavlink_channel_fresh mavlink_message_zero mavlink_status_zero) =
   Inr ([5, 6, 9], 4, 4)"
  by code_simp

lemma frames_5_6_9_well_formed:
  "(case finalize_message mavlink_env_x25 5 mavlink_message_zero 0 0 0 of
      Inl e \<Rightarrow> Inl e
    | Inr (msg, _) \<Rightarrow> map_sum id fst (message_to_send_buffer mavlink_env_x25 (replicate 8 0) msg)) =
     Inr [0x55, 0, 5, 0, 0, 0, 0xDF, 0x5E] \<and>
   (case finalize_message mavlink_env_x25 6 mavlink_message_zero 0 0 0 of
      Inl e \<Rightarrow> Inl e
    | Inr (msg, _) \<Rightarrow> map_sum id fst (message_to_send_buffer mavlink_env_x25 (replicate 8 0) msg)) =
     Inr [0x55, 0, 6, 0, 0, 0, 0x12, 0x7B] \<and>
   (case finalize_message mavlink_env_x25 9 mavlink_message_zero 0 0 0 of
      Inl e \<Rightarrow> Inl e
    | Inr (msg, _) \<Rightarrow> map_sum id fst (message_to_send_buffer mavlink_env_x25 (replicate 8 0) msg)) =
     Inr [0x55, 0, 9, 0, 0, 0, 0xEB, 0xC9]"
  by code_simp

lemma drop_count_first_frame:
  "map_sum id
     (\<lambda>(msgs, chan, msg, st). (map seq msgs, packet_rx_drop_count (m_mavlink_status chan)))
     (mavlink_parse_stream mavlink_env_x25 [0x55, 0, 5, 0, 0, 0, 0xDF, 0x5E]
        mavlink_channel_fresh mavlink_message_zero mavlink_status_zero) =
   Inr ([5], 0)"
  by code_simp

subsection \<open>The overrun branch\<close>

text \<open>
  Line 158 clears \<^verbatim>\<open>msg_received\<close> at the start of every call, before the \<^verbatim>\<open>switch\<close>
  tests it in state \<^verbatim>\<open>GOT_STX\<close>. So no call takes the overrun branch: the overrun counter
  is what the initializer left, and a byte met in \<^verbatim>\<open>GOT_STX\<close> is always taken as the length.
\<close>

lemma buffer_overrun_never_counted:
  assumes "mavlink_parse_char env chan c r_message r_mavlink_status = Inr r"
  shows "buffer_overrun (m_mavlink_status (res_channel r)) =
           buffer_overrun (mavlink_parse_state_initialize (m_mavlink_status chan))"
    and "parse_state (m_mavlink_status chan) = MAVLINK_PARSE_STATE_GOT_STX \<Longrightarrow>
           parse_state (m_mavlink_status (res_channel r)) = MAVLINK_PARSE_STATE_GOT_LENGTH \<and>
           parse_error (m_mavlink_status (res_channel r)) = parse_error (m_mavlink_status chan) \<and>
           len (m_mavlink_message (res_channel r)) = c"
  using assms
  by (auto simp: parse_char_defs received_closed parse_state_defs split: if_splits)

text \<open>
  C4, evaluated. A fresh channel decodes a frame; the caller does not look at the message,
  and a delimiter and one more byte follow. The second delimiter finds the channel in
  \<^verbatim>\<open>GOT_STX\<close>. Neither counter moves: the byte is stored as the length and the channel is
  in \<^verbatim>\<open>GOT_LENGTH\<close>.
\<close>

theorem overrun_not_counted_after_unread_message:
  "map_sum id
     (\<lambda>(msgs, chan, msg, st).
        (length msgs, buffer_overrun (m_mavlink_status chan),
         parse_error (m_mavlink_status chan), parse_state (m_mavlink_status chan),
         len (m_mavlink_message chan)))
     (mavlink_parse_stream mavlink_env_x25
        ([0x55, 0, 5, 0, 0, 0, 0xDF, 0x5E] @ [0x55, 0x55])
        mavlink_channel_fresh mavlink_message_zero mavlink_status_zero) =
   Inr (1, 0, 0, MAVLINK_PARSE_STATE_GOT_LENGTH, 0x55)"
  unfolding MAVLINK_PARSE_STATE_GOT_LENGTH_def by code_simp


subsection \<open>Resynchronization\<close>

lemma ucast_ucast_byte: "ucast (ucast l :: 16 word) = (l :: 8 word)"
  by (rule bit_word_eqI) (auto simp: bit_simps)

lemma unat_ucast_byte: "unat (ucast l :: 16 word) = unat (l :: 8 word)"
proof -
  have "unat l < 256"
    using unsigned_less [of l] by simp
  then show ?thesis
    by (simp add: unsigned_ucast_eq take_bit_nat_eq_self)
qed

text \<open>The bytes the serializer reports as written are the frame of the message.\<close>

lemma sent_frame:
  assumes ok: "mavlink_message_ok msg"
    and sent: "message_to_send_buffer env buffer msg = Inr (out, n)"
  shows "take (unat n) out =
           MAVLINK_STX env # len msg # seq msg # sysid msg # compid msg # msgid msg #
           take (unat (len msg)) (payload msg) @
           [mavlink_message_t.ck_a msg, mavlink_message_t.ck_b msg]"
proof -
  let ?frame = "MAVLINK_STX env # len msg # seq msg # sysid msg # compid msg # msgid msg #
           take (unat (len msg)) (payload msg) @
           [mavlink_message_t.ck_a msg, mavlink_message_t.ck_b msg]"
  have size: "length (payload msg) = 255"
    using ok by (simp add: mavlink_message_ok_def MAVLINK_MAX_PAYLOAD_LEN_def)
  have "unat (len msg) < 256"
    using unsigned_less [of "len msg"] by simp
  with size have fits: "unat (len msg) \<le> length (payload msg)"
    by simp
  have room: "unat (len msg) + 8 \<le> length buffer"
    using sent
    by (simp add: message_to_send_buffer_def Let_def MAVLINK_CORE_HEADER_LEN_def
        split: if_splits)
  have out: "out = ?frame @ drop (unat (len msg) + 8) buffer" and n: "n = ucast (len msg) + 8"
    using sent message_to_send_buffer_closed [OF fits room, of env] by simp_all
  have flen: "length ?frame = unat (len msg) + 8"
    using fits by simp
  have "take (length ?frame) (?frame @ drop (unat (len msg) + 8) buffer) = ?frame"
    by (rule take_whole)
  then show ?thesis
    by (simp only: out n unat_send_length flen)
qed

text \<open>The checksum bytes the finalizer would stamp on a message as it stands.\<close>

lemma refinalized_checksum:
  assumes ok: "mavlink_message_ok msg"
    and fin: "finalize_message env (seq msg) msg (sysid msg) (compid msg) (ucast (len msg)) =
                Inr (fixed, seq_next, sent)"
    and crc: "crc = fold (crcAccumulate env)
                (len msg # seq msg # sysid msg # compid msg # msgid msg #
                 take (unat (len msg)) (payload msg)) (crcInit env)"
  shows "mavlink_message_t.ck_a fixed = checksum_c0 crc"
    and "mavlink_message_t.ck_b fixed = checksum_c1 crc"
proof -
  have "unat (len msg) < 256"
    using unsigned_less [of "len msg"] by simp
  then have len_ok: "unat (ucast (len msg) :: 16 word) \<le> MAVLINK_MAX_PAYLOAD_LEN"
    by (simp add: unat_ucast_byte MAVLINK_MAX_PAYLOAD_LEN_def)
  note closed = finalize_message_closed [OF len_ok ok refl,
      of env "seq msg" "sysid msg" "compid msg"]
  from fin closed show "mavlink_message_t.ck_a fixed = checksum_c0 crc"
    and "mavlink_message_t.ck_b fixed = checksum_c1 crc"
    by (auto simp: crc unat_ucast_byte ucast_ucast_byte)
qed

text \<open>
  A frame whose trailer does not match puts a waiting channel back in \<^verbatim>\<open>IDLE\<close> by the end
  of the frame, with one more parse error, unless the mismatch is at the first trailer
  byte and the second trailer byte is the delimiter.
\<close>

lemma stream_frame_reject:
  assumes wait: "parse_state (m_mavlink_status chan) = MAVLINK_PARSE_STATE_UNINIT \<or>
                 parse_state (m_mavlink_status chan) = MAVLINK_PARSE_STATE_IDLE"
    and lp: "length p = unat l"
    and room: "unat l \<le> length (payload (m_mavlink_message chan))"
    and crc: "crc = fold (crcAccumulate env) (l # s # sy # co # mi # p) (crcInit env)"
    and bad: "t1 \<noteq> checksum_c0 crc \<or> t2 \<noteq> checksum_c1 crc"
    and nostx: "t1 \<noteq> checksum_c0 crc \<longrightarrow> t2 \<noteq> MAVLINK_STX env"
  shows "\<exists>chan' st'.
           mavlink_parse_stream env
             (MAVLINK_STX env # l # s # sy # co # mi # p @ t1 # t2 # rest) chan msg st =
           mavlink_parse_stream env rest chan' msg st' \<and>
           parse_state (m_mavlink_status chan') = MAVLINK_PARSE_STATE_IDLE \<and>
           length (payload (m_mavlink_message chan')) =
             length (payload (m_mavlink_message chan)) \<and>
           parse_error (m_mavlink_status chan') =
             parse_error (mavlink_parse_state_initialize (m_mavlink_status chan)) + 1"
proof -
  let ?init = "mavlink_parse_state_initialize (m_mavlink_status chan)"
  let ?chanP = "\<lparr>m_mavlink_status = ?init
              \<lparr>msg_received := 0, packet_idx := l,
               parse_state := MAVLINK_PARSE_STATE_GOT_PAYLOAD\<rparr>,
            m_mavlink_message = (m_mavlink_message chan)
              \<lparr>len := l, seq := s, sysid := sy, compid := co, msgid := mi,
               payload := p @ drop (length p) (payload (m_mavlink_message chan)),
               mavlink_message_t.ck_a := checksum_c0 crc,
               mavlink_message_t.ck_b := checksum_c1 crc\<rparr>\<rparr>"
  let ?stP = "st\<lparr>current_seq := current_seq (m_mavlink_status chan) + 1,
               packet_rx_success_count := packet_rx_success_count ?init,
               packet_rx_drop_count := packet_rx_drop_count ?init\<rparr>"
  have pre: "mavlink_parse_stream env
               (MAVLINK_STX env # l # s # sy # co # mi # p @ t1 # t2 # rest) chan msg st =
             mavlink_parse_stream env (t1 # t2 # rest) ?chanP msg ?stP"
    using stream_frame_prefix [OF wait lp room, of env s sy co mi "t1 # t2 # rest" msg st]
    by (simp add: crc)
  have gp: "parse_state (m_mavlink_status ?chanP) = MAVLINK_PARSE_STATE_GOT_PAYLOAD"
    by simp
  have size: "length (payload (m_mavlink_message ?chanP)) =
              length (payload (m_mavlink_message chan))"
    using lp room by simp
  show ?thesis
  proof (cases "t1 = checksum_c0 crc")
    case True
    with bad have t2: "t2 \<noteq> mavlink_message_t.ck_b (m_mavlink_message ?chanP)"
      by simp
    from True have t1: "t1 = mavlink_message_t.ck_a (m_mavlink_message ?chanP)"
      by simp
    note rej = stream_trailer_reject_high [OF gp t2, of env rest msg ?stP, folded t1]
    let ?chanI = "\<lparr>m_mavlink_status =
              (m_mavlink_status ?chanP)
                \<lparr>msg_received := 0, parse_state := MAVLINK_PARSE_STATE_IDLE,
                 parse_error := parse_error (m_mavlink_status ?chanP) + 1\<rparr>,
            m_mavlink_message = m_mavlink_message ?chanP\<rparr>"
    let ?stI = "?stP\<lparr>current_seq := current_seq (m_mavlink_status ?chanP) + 1,
               packet_rx_success_count := packet_rx_success_count (m_mavlink_status ?chanP),
               packet_rx_drop_count := packet_rx_drop_count (m_mavlink_status ?chanP)\<rparr>"
    have "mavlink_parse_stream env
             (MAVLINK_STX env # l # s # sy # co # mi # p @ t1 # t2 # rest) chan msg st =
           mavlink_parse_stream env rest ?chanI msg ?stI"
      unfolding pre rej by (rule refl)
    moreover have "parse_state (m_mavlink_status ?chanI) = MAVLINK_PARSE_STATE_IDLE"
      by simp
    moreover have "length (payload (m_mavlink_message ?chanI)) =
             length (payload (m_mavlink_message chan))"
      using size by simp
    moreover have "parse_error (m_mavlink_status ?chanI) = parse_error ?init + 1"
      by simp
    ultimately show ?thesis
      by blast
  next
    case False
    then have t1: "t1 \<noteq> mavlink_message_t.ck_a (m_mavlink_message ?chanP)"
      by simp
    from False nostx have t2: "t2 \<noteq> MAVLINK_STX env"
      by simp
    let ?chanI = "\<lparr>m_mavlink_status =
              (m_mavlink_status ?chanP)
                \<lparr>msg_received := 0, parse_state := MAVLINK_PARSE_STATE_IDLE,
                 parse_error := parse_error (m_mavlink_status ?chanP) + 1\<rparr>,
            m_mavlink_message = m_mavlink_message ?chanP\<rparr>"
    let ?stI = "?stP\<lparr>current_seq := current_seq (m_mavlink_status ?chanP) + 1,
               packet_rx_success_count := packet_rx_success_count (m_mavlink_status ?chanP),
               packet_rx_drop_count := packet_rx_drop_count (m_mavlink_status ?chanP)\<rparr>"
    note rej = stream_trailer_reject_low [OF gp t1, of env "t2 # rest" msg ?stP]
    have idle: "parse_state (m_mavlink_status ?chanI) = MAVLINK_PARSE_STATE_IDLE"
      by simp
    note skip = stream_idle_skip [OF idle t2, of rest msg ?stI]
    let ?chanJ = "\<lparr>m_mavlink_status = (m_mavlink_status ?chanI)\<lparr>msg_received := 0\<rparr>,
            m_mavlink_message = m_mavlink_message ?chanI\<rparr>"
    let ?stJ = "?stI\<lparr>current_seq := current_seq (m_mavlink_status ?chanI) + 1,
               packet_rx_success_count := packet_rx_success_count (m_mavlink_status ?chanI),
               packet_rx_drop_count := packet_rx_drop_count (m_mavlink_status ?chanI)\<rparr>"
    have "mavlink_parse_stream env
             (MAVLINK_STX env # l # s # sy # co # mi # p @ t1 # t2 # rest) chan msg st =
           mavlink_parse_stream env rest ?chanJ msg ?stJ"
      unfolding pre rej skip by (rule refl)
    moreover have "parse_state (m_mavlink_status ?chanJ) = MAVLINK_PARSE_STATE_IDLE"
      by simp
    moreover have "length (payload (m_mavlink_message ?chanJ)) =
             length (payload (m_mavlink_message chan))"
      using size by simp
    moreover have "parse_error (m_mavlink_status ?chanJ) = parse_error ?init + 1"
      by simp
    ultimately show ?thesis
      by blast
  qed
qed


text \<open>
  C2, as stated, fails. The corrupted frame \<open>55 00 00 00 00 00 00 55\<close> is what the
  serializer writes for an empty message whose checksum bytes are \<open>00 55\<close> instead of
  \<open>88 30\<close>. Its first trailer byte is rejected; its second is the delimiter and opens a
  frame, so the delimiter of the well-formed frame \<open>55 00 01 00 00 00 33 2C\<close> that follows
  is read as a length of 85. A fresh channel fed both frames decodes nothing and is left
  in the payload-accumulation state.
\<close>

theorem resynchronization_counterexample:
  "map_sum id fst
     (message_to_send_buffer mavlink_env_x25 (replicate 8 0)
        (mavlink_message_zero\<lparr>mavlink_message_t.ck_a := 0, mavlink_message_t.ck_b := 0x55\<rparr>)) =
     Inr [0x55, 0, 0, 0, 0, 0, 0, 0x55] \<and>
   map_sum id (\<lambda>(fixed, _). (mavlink_message_t.ck_a fixed, mavlink_message_t.ck_b fixed))
     (finalize_message mavlink_env_x25 0
        (mavlink_message_zero\<lparr>mavlink_message_t.ck_a := 0, mavlink_message_t.ck_b := 0x55\<rparr>)
        0 0 0) = Inr (0x88, 0x30) \<and>
   (case finalize_message mavlink_env_x25 1 mavlink_message_zero 0 0 0 of
      Inl e \<Rightarrow> Inl e
    | Inr (good, _) \<Rightarrow>
        map_sum id fst (message_to_send_buffer mavlink_env_x25 (replicate 8 0) good)) =
     Inr [0x55, 0, 1, 0, 0, 0, 0x33, 0x2C] \<and>
   map_sum id
     (\<lambda>(msgs, chan, msg, st).
        (msgs, parse_state (m_mavlink_status chan), len (m_mavlink_message chan)))
     (mavlink_parse_stream mavlink_env_x25
        ([0x55, 0, 0, 0, 0, 0, 0, 0x55] @ [0x55, 0, 1, 0, 0, 0, 0x33, 0x2C])
        mavlink_channel_fresh mavlink_message_zero mavlink_status_zero) =
     Inr ([], MAVLINK_PARSE_STATE_GOT_MSGID, 0x55)"
  unfolding MAVLINK_PARSE_STATE_GOT_MSGID_def by code_simp

text \<open>
  C2, amended. A channel in \<^verbatim>\<open>UNINIT\<close> or \<^verbatim>\<open>IDLE\<close> is fed the frame of a message \<open>bad\<close>
  whose checksum bytes are not the ones the finalizer would stamp on it, and then the frame
  of a finalized message \<open>good\<close>. If, when the first checksum byte of \<open>bad\<close> is the wrong
  one, its second checksum byte is not the delimiter, the parser hands out exactly one
  message, at the last byte, and it is \<open>good\<close>: header fields, the first \<open>len\<close> payload
  bytes and checksum bytes. Nothing resets the channel in between.
\<close>

theorem resynchronization_after_corrupted_frame:
  assumes wait: "parse_state (m_mavlink_status chan) = MAVLINK_PARSE_STATE_UNINIT \<or>
                 parse_state (m_mavlink_status chan) = MAVLINK_PARSE_STATE_IDLE"
    and rx_ok: "mavlink_message_ok (m_mavlink_message chan)"
    and bad_ok: "mavlink_message_ok bad"
    and bad_sent: "message_to_send_buffer env buffer1 bad = Inr (out1, n1)"
    and bad_fixed: "finalize_message env (seq bad) bad (sysid bad) (compid bad) (ucast (len bad)) =
                      Inr (fixed, seq1, sent1)"
    and bad_trailer: "mavlink_message_t.ck_a bad \<noteq> mavlink_message_t.ck_a fixed \<or>
                      mavlink_message_t.ck_b bad \<noteq> mavlink_message_t.ck_b fixed"
    and no_delimiter: "mavlink_message_t.ck_a bad \<noteq> mavlink_message_t.ck_a fixed \<longrightarrow>
                       mavlink_message_t.ck_b bad \<noteq> MAVLINK_STX env"
    and draft_ok: "mavlink_message_ok draft"
    and len_ok: "unat length_arg \<le> MAVLINK_MAX_PAYLOAD_LEN"
    and good: "finalize_message env seq_static draft system_id component_id length_arg =
                 Inr (good, seq2, sent2)"
    and good_sent: "message_to_send_buffer env buffer2 good = Inr (out2, n2)"
  shows "\<exists>decoded chan' st'.
           mavlink_parse_stream env (take (unat n1) out1 @ take (unat n2) out2) chan
             r_message r_mavlink_status = Inr ([decoded], chan', decoded, st') \<and>
           len decoded = len good \<and>
           seq decoded = seq good \<and>
           sysid decoded = sysid good \<and>
           compid decoded = compid good \<and>
           msgid decoded = msgid good \<and>
           take (unat (len good)) (payload decoded) = take (unat (len good)) (payload good) \<and>
           mavlink_message_t.ck_a decoded = mavlink_message_t.ck_a good \<and>
           mavlink_message_t.ck_b decoded = mavlink_message_t.ck_b good"
proof -
  let ?pb = "take (unat (len bad)) (payload bad)"
  let ?crcb = "fold (crcAccumulate env)
                 (len bad # seq bad # sysid bad # compid bad # msgid bad # ?pb) (crcInit env)"
  let ?l = "ucast length_arg :: 8 word"
  let ?pg = "take (unat length_arg) (payload draft)"
  let ?crcg = "fold (crcAccumulate env)
                 (?l # seq_static # system_id # component_id # msgid draft # ?pg) (crcInit env)"
  have size_rx: "length (payload (m_mavlink_message chan)) = 255"
    using rx_ok by (simp add: mavlink_message_ok_def MAVLINK_MAX_PAYLOAD_LEN_def)
  have size_bad: "length (payload bad) = 255"
    using bad_ok by (simp add: mavlink_message_ok_def MAVLINK_MAX_PAYLOAD_LEN_def)
  have size_draft: "length (payload draft) = 255"
    using draft_ok by (simp add: mavlink_message_ok_def MAVLINK_MAX_PAYLOAD_LEN_def)
  have lb: "unat (len bad) < 256"
    using unsigned_less [of "len bad"] by simp
  have le: "unat length_arg \<le> 255"
    using len_ok by (simp add: MAVLINK_MAX_PAYLOAD_LEN_def)
  have ul: "unat ?l = unat length_arg"
    using le by (rule ucast_length_arg)
  have good_eq: "good = draft\<lparr>len := ?l, seq := seq_static, sysid := system_id,
                      compid := component_id,
                      mavlink_message_t.ck_a := checksum_c0 ?crcg,
                      mavlink_message_t.ck_b := checksum_c1 ?crcg\<rparr>"
    using good finalize_message_closed [OF len_ok draft_ok refl,
        of env seq_static system_id component_id]
    by simp
  have good_ok: "mavlink_message_ok good"
    using draft_ok by (simp add: good_eq mavlink_message_ok_def)
  have frame_bad: "take (unat n1) out1 =
           MAVLINK_STX env # len bad # seq bad # sysid bad # compid bad # msgid bad #
           ?pb @ [mavlink_message_t.ck_a bad, mavlink_message_t.ck_b bad]"
    using sent_frame [OF bad_ok bad_sent] .
  have frame_good: "take (unat n2) out2 =
           MAVLINK_STX env # ?l # seq_static # system_id # component_id # msgid draft #
           ?pg @ [checksum_c0 ?crcg, checksum_c1 ?crcg]"
    using sent_frame [OF good_ok good_sent] by (simp add: good_eq ul)
  note fixed = refinalized_checksum [OF bad_ok bad_fixed refl]
  have lpb: "length ?pb = unat (len bad)"
    using lb size_bad by simp
  have room_b: "unat (len bad) \<le> length (payload (m_mavlink_message chan))"
    using lb size_rx by simp
  have bad': "mavlink_message_t.ck_a bad \<noteq> checksum_c0 ?crcb \<or>
              mavlink_message_t.ck_b bad \<noteq> checksum_c1 ?crcb"
    using bad_trailer by (simp only: fixed)
  have nostx: "mavlink_message_t.ck_a bad \<noteq> checksum_c0 ?crcb \<longrightarrow>
               mavlink_message_t.ck_b bad \<noteq> MAVLINK_STX env"
    using no_delimiter by (simp only: fixed)
  from stream_frame_reject [OF wait lpb room_b refl bad' nostx,
      of "take (unat n2) out2" r_message r_mavlink_status]
  obtain chanI stI where
    first: "mavlink_parse_stream env
              (MAVLINK_STX env # len bad # seq bad # sysid bad # compid bad # msgid bad #
               ?pb @ mavlink_message_t.ck_a bad # mavlink_message_t.ck_b bad #
               take (unat n2) out2) chan r_message r_mavlink_status =
            mavlink_parse_stream env (take (unat n2) out2) chanI r_message stI"
    and idle: "parse_state (m_mavlink_status chanI) = MAVLINK_PARSE_STATE_IDLE"
    and size_I: "length (payload (m_mavlink_message chanI)) =
                 length (payload (m_mavlink_message chan))"
    by blast
  have whole: "mavlink_parse_stream env (take (unat n1) out1 @ take (unat n2) out2) chan
                 r_message r_mavlink_status =
               mavlink_parse_stream env (take (unat n2) out2) chanI r_message stI"
    using first by (simp add: frame_bad)
  have waitI: "parse_state (m_mavlink_status chanI) = MAVLINK_PARSE_STATE_UNINIT \<or>
               parse_state (m_mavlink_status chanI) = MAVLINK_PARSE_STATE_IDLE"
    using idle by simp
  have lpg: "length ?pg = unat ?l"
    using le size_draft ul by simp
  have room_g: "unat ?l \<le> length (payload (m_mavlink_message chanI))"
    using le ul size_I size_rx by simp
  let ?decoded = "(m_mavlink_message chanI)
              \<lparr>len := ?l, seq := seq_static, sysid := system_id, compid := component_id,
               msgid := msgid draft,
               payload := ?pg @ drop (length ?pg) (payload (m_mavlink_message chanI)),
               mavlink_message_t.ck_a := checksum_c0 ?crcg,
               mavlink_message_t.ck_b := checksum_c1 ?crcg\<rparr>"
  have "\<exists>chan' st'. mavlink_parse_stream env (take (unat n2) out2) chanI r_message stI =
          Inr ([?decoded], chan', ?decoded, st')"
    using stream_frame_accept [where env = env and s = seq_static and sy = system_id and
        co = component_id and mi = "msgid draft" and rest = "[]" and msg = r_message and
        st = stI, OF waitI lpg room_g refl refl refl refl refl]
    by (simp add: frame_good)
  then obtain chan' st' where second:
    "mavlink_parse_stream env (take (unat n2) out2) chanI r_message stI =
       Inr ([?decoded], chan', ?decoded, st')"
    by blast
  have fields: "len ?decoded = len good" "seq ?decoded = seq good"
      "sysid ?decoded = sysid good" "compid ?decoded = compid good"
      "msgid ?decoded = msgid good"
      "take (unat (len good)) (payload ?decoded) = take (unat (len good)) (payload good)"
      "mavlink_message_t.ck_a ?decoded = mavlink_message_t.ck_a good"
      "mavlink_message_t.ck_b ?decoded = mavlink_message_t.ck_b good"
    using le size_draft ul by (simp_all add: good_eq)
  from whole second fields show ?thesis
    by (intro exI [of _ ?decoded] exI [of _ chan'] exI [of _ st']) simp
qed


theorem resynchronization_after_corrupted_frame_witness:
  "\<exists>decoded chan' st'.
     mavlink_parse_stream mavlink_env_x25
       ([0x55, 0, 0, 0, 0, 0, 0, 0] @ [0x55, 0, 1, 0, 0, 0, 0x33, 0x2C])
       mavlink_channel_fresh mavlink_message_zero mavlink_status_zero =
       Inr ([decoded], chan', decoded, st') \<and>
     len decoded = 0 \<and> seq decoded = 1 \<and> sysid decoded = 0 \<and> compid decoded = 0 \<and>
     msgid decoded = 0 \<and>
     mavlink_message_t.ck_a decoded = 0x33 \<and> mavlink_message_t.ck_b decoded = 0x2C"
proof -
  let ?good = "mavlink_message_zero\<lparr>seq := 1, mavlink_message_t.ck_a := 0x33,
                                     mavlink_message_t.ck_b := 0x2C\<rparr>"
  let ?fixed = "mavlink_message_zero\<lparr>mavlink_message_t.ck_a := 0x88,
                                      mavlink_message_t.ck_b := 0x30\<rparr>"
  have wait: "parse_state (m_mavlink_status mavlink_channel_fresh) = MAVLINK_PARSE_STATE_UNINIT \<or>
              parse_state (m_mavlink_status mavlink_channel_fresh) = MAVLINK_PARSE_STATE_IDLE"
    by (simp add: zero_defs parse_state_defs)
  have rx_ok: "mavlink_message_ok (m_mavlink_message mavlink_channel_fresh)"
    by (simp add: zero_defs mavlink_message_ok_def)
  have zero_ok: "mavlink_message_ok mavlink_message_zero"
    by (simp add: zero_defs mavlink_message_ok_def)
  have bad_sent: "message_to_send_buffer mavlink_env_x25 (replicate 8 0) mavlink_message_zero =
                    Inr ([0x55, 0, 0, 0, 0, 0, 0, 0], 8)"
    by code_simp
  have bad_fixed: "finalize_message mavlink_env_x25 (seq mavlink_message_zero)
                     mavlink_message_zero (sysid mavlink_message_zero)
                     (compid mavlink_message_zero) (ucast (len mavlink_message_zero)) =
                   Inr (?fixed, 1, 7)"
    by code_simp
  have bad_trailer: "mavlink_message_t.ck_a mavlink_message_zero \<noteq> mavlink_message_t.ck_a ?fixed \<or>
                     mavlink_message_t.ck_b mavlink_message_zero \<noteq> mavlink_message_t.ck_b ?fixed"
    by (simp add: zero_defs)
  have no_delimiter:
    "mavlink_message_t.ck_a mavlink_message_zero \<noteq> mavlink_message_t.ck_a ?fixed \<longrightarrow>
     mavlink_message_t.ck_b mavlink_message_zero \<noteq> MAVLINK_STX mavlink_env_x25"
    by (simp add: zero_defs mavlink_env_x25_def)
  have len_ok: "unat (0 :: 16 word) \<le> MAVLINK_MAX_PAYLOAD_LEN"
    by simp
  have good: "finalize_message mavlink_env_x25 1 mavlink_message_zero 0 0 0 = Inr (?good, 2, 7)"
    by code_simp
  have good_sent: "message_to_send_buffer mavlink_env_x25 (replicate 8 0) ?good =
                     Inr ([0x55, 0, 1, 0, 0, 0, 0x33, 0x2C], 8)"
    by code_simp
  from resynchronization_after_corrupted_frame [OF wait rx_ok zero_ok bad_sent bad_fixed
      bad_trailer no_delimiter zero_ok len_ok good good_sent,
      of mavlink_message_zero mavlink_status_zero]
  show ?thesis
    by (simp add: zero_defs)
qed


end
